theory Spec2Isabelle
  imports Main "HOL-Library.AList"
begin

section \<open>JavaScript values\<close>

text \<open>
  Request bodies, gateway replies and the legacy receipts file are JSON. A value read
  from them is a \<open>json\<close>; \<open>JUndefined\<close> is what reading a missing property gives.
  Numbers are whole numbers (amounts are whole shillings, clock readings whole
  milliseconds); fractional numbers are left out of the model. A string is a
  list of bytes: the handlers only ever look at ASCII digits and ASCII letters of a
  string, and no byte of a multi-byte character is an ASCII byte.
\<close>

datatype json =
    JUndefined
  | JNull
  | JBool bool
  | JNum int
  | JStr string
  | JArr "json list"
  | JObj "(string \<times> json) list"

text \<open>Truthiness, as \<open>!x\<close>, \<open>x || y\<close> and \<open>filter(Boolean)\<close> see it.\<close>

fun truthy :: "json \<Rightarrow> bool" where
  "truthy JUndefined = False"
| "truthy JNull = False"
| "truthy (JBool b) = b"
| "truthy (JNum n) = (n \<noteq> 0)"
| "truthy (JStr s) = (s \<noteq> [])"
| "truthy (JArr xs) = True"
| "truthy (JObj fs) = True"

definition js_or :: "json \<Rightarrow> json \<Rightarrow> json" where
  "js_or a b = (if truthy a then a else b)"

text \<open>
  Property access \<open>a.k\<close>: a TypeError (\<open>None\<close>) on \<open>undefined\<close> and \<open>null\<close>,
  \<open>undefined\<close> for a property the value does not have. \<open>oprop\<close> is \<open>a?.k\<close>.
\<close>

fun get_prop :: "json \<Rightarrow> string \<Rightarrow> json option" where
  "get_prop JUndefined k = None"
| "get_prop JNull k = None"
| "get_prop (JObj fs) k = Some (case map_of fs k of None \<Rightarrow> JUndefined | Some v \<Rightarrow> v)"
| "get_prop v k = Some JUndefined"

definition oprop :: "json \<Rightarrow> string \<Rightarrow> json" where
  "oprop a k = (case get_prop a k of None \<Rightarrow> JUndefined | Some v \<Rightarrow> v)"

subsection \<open>Strings\<close>

definition digit_char :: "nat \<Rightarrow> char" where
  "digit_char d = ''0123456789'' ! d"

text \<open>The decimal numeral of a natural number, as \<open>"" + Date.now()\<close> prints it.\<close>

fun string_of_nat :: "nat \<Rightarrow> string" where
  "string_of_nat n =
     (if n < 10 then [digit_char n]
      else string_of_nat (n div 10) @ [digit_char (n mod 10)])"

declare string_of_nat.simps [simp del]

fun join_comma :: "string list \<Rightarrow> string" where
  "join_comma [] = []"
| "join_comma [x] = x"
| "join_comma (x # y # ys) = x @ CHR '','' # join_comma (y # ys)"

text \<open>\<open>String(x)\<close>; for a number, the plain decimal numeral (below \<open>10^21\<close>).\<close>

fun js_String :: "json \<Rightarrow> string" where
  "js_String JUndefined = ''undefined''"
| "js_String JNull = ''null''"
| "js_String (JBool b) = (if b then ''true'' else ''false'')"
| "js_String (JNum n) =
     (if n < 0 then CHR ''-'' # string_of_nat (nat (- n)) else string_of_nat (nat n))"
| "js_String (JStr s) = s"
| "js_String (JArr xs) =
     join_comma (map (\<lambda>x. if x = JUndefined \<or> x = JNull then [] else js_String x) xs)"
| "js_String (JObj fs) = ''[object Object]''"

definition is_digit :: "char \<Rightarrow> bool" where
  "is_digit c = (c \<in> set ''0123456789'')"

definition startsWith :: "string \<Rightarrow> string \<Rightarrow> bool" where
  "startsWith s p = (take (length p) s = p)"

definition lower_char :: "char \<Rightarrow> char" where
  "lower_char c =
     (case map_of (zip ''ABCDEFGHIJKLMNOPQRSTUVWXYZ'' ''abcdefghijklmnopqrstuvwxyz'') c of
        None \<Rightarrow> c
      | Some d \<Rightarrow> d)"

definition toLowerCase :: "string \<Rightarrow> string" where
  "toLowerCase s = map lower_char s"

text \<open>
  \<open>(x || "").toLowerCase()\<close>: the lower-cased string, \<open>""\<close> for a falsy value, and a
  TypeError (\<open>None\<close>) for a truthy value that is not a string.
\<close>

fun lower_or_empty :: "json \<Rightarrow> string option" where
  "lower_or_empty (JStr s) = Some (toLowerCase s)"
| "lower_or_empty v = (if truthy v then None else Some [])"

section \<open>Phone normalizer\<close>

text \<open>
  \<^verbatim>\<open>
  function formatPhone(phone) {
    if (!phone) return null;
    const digits = String(phone).replace(/\D/g, "");
    if (digits.length === 9 && digits.startsWith("7")) return "254" + digits;
    if (digits.length === 10 && digits.startsWith("07")) return "254" + digits.substring(1);
    if (digits.length === 12 && digits.startsWith("254")) return digits;
    return null;
  }
  \<close>
  The same text stands in both server files. \<open>None\<close> is the \<open>null\<close> it returns.
\<close>

definition strip_non_digits :: "string \<Rightarrow> string" where
  "strip_non_digits s = filter is_digit s"

definition formatPhone :: "json \<Rightarrow> string option" where
  "formatPhone phone =
     (if \<not> truthy phone then None
      else let digits = strip_non_digits (js_String phone) in
        if length digits = 9 \<and> startsWith digits ''7'' then Some (''254'' @ digits)
        else if length digits = 10 \<and> startsWith digits ''07'' then Some (''254'' @ drop 1 digits)
        else if length digits = 12 \<and> startsWith digits ''254'' then Some digits
        else None)"

section \<open>The ledger store (database variant)\<close>

text \<open>
  The two tables of \<open>initDatabase\<close>. \<open>users.phone\<close> and \<open>transactions.reference\<close> are
  \<open>UNIQUE NOT NULL\<close>, \<open>transactions.amount\<close> is \<open>NOT NULL\<close>. Users are kept by their key;
  transactions are kept in the order of their insertion, the oldest first. The columns
  \<open>id\<close>, \<open>created_at\<close> and \<open>updated_at\<close> are left out: no handler reads them but to
  order a listing by \<open>created_at\<close>, which is the order of insertion.

  \<open>users.balance\<close> and \<open>transactions.amount\<close> are \<open>DECIMAL(15, 2)\<close>: a statement that would
  store a whole number of fourteen digits or more throws a numeric overflow. The
  \<open>VARCHAR\<close> bounds are never reached: a phone is the twelve digits \<open>formatPhone\<close>
  returns, and a reference is a short prefix and a reading of \<open>Date.now()\<close>, which has
  at most sixteen digits.
\<close>

record user =
  phone :: string
  balance :: int
  has_paid_fee :: bool

record transaction =
  reference :: string
  user_phone :: string
  type :: string
  amount :: "int option"
  status :: string
  description :: string
  metadata :: json

record ledger =
  users :: "string \<rightharpoonup> user"
  transactions :: "transaction list"

datatype db_error = DuplicateReference | NotNullViolation | NumericOverflow

definition fits_decimal :: "int \<Rightarrow> bool" where
  "fits_decimal n = (\<bar>n\<bar> < 10 ^ 13)"

definition references :: "ledger \<Rightarrow> string set" where
  "references s = set (map reference (transactions s))"

definition find_transaction :: "ledger \<Rightarrow> string \<Rightarrow> transaction option" where
  "find_transaction s ref = find (\<lambda>t. reference t = ref) (transactions s)"

text \<open>\<open>SELECT\<close>, then \<open>INSERT ... VALUES ($1, 0, FALSE)\<close> when there is no row.\<close>

definition getOrCreateUser :: "ledger \<Rightarrow> string \<Rightarrow> user \<times> ledger" where
  "getOrCreateUser s ph =
     (case users s ph of
        Some u \<Rightarrow> (u, s)
      | None \<Rightarrow>
          (let u = \<lparr>phone = ph, balance = 0, has_paid_fee = False\<rparr>
           in (u, s\<lparr>users := (users s)(ph \<mapsto> u)\<rparr>)))"

text \<open>
  \<open>UPDATE users SET balance = balance + $1\<close> (or \<open>- $1\<close>) \<open>WHERE phone = $2\<close>. It
  updates the row of the phone if there is one, and throws when the new balance does not
  fit the column.
\<close>

definition updateUserBalance :: "ledger \<Rightarrow> string \<Rightarrow> int \<Rightarrow> bool \<Rightarrow> db_error + ledger" where
  "updateUserBalance s ph amt add =
     (case users s ph of
        None \<Rightarrow> Inr s
      | Some u \<Rightarrow>
          (let b = (if add then balance u + amt else balance u - amt)
           in if fits_decimal b then Inr (s\<lparr>users := (users s)(ph \<mapsto> u\<lparr>balance := b\<rparr>)\<rparr>)
              else Inl NumericOverflow))"

definition markUserFeePaid :: "ledger \<Rightarrow> string \<Rightarrow> ledger" where
  "markUserFeePaid s ph =
     (case users s ph of
        None \<Rightarrow> s
      | Some u \<Rightarrow> s\<lparr>users := (users s)(ph \<mapsto> u\<lparr>has_paid_fee := True\<rparr>)\<rparr>)"

text \<open>
  \<open>INSERT INTO transactions\<close>: the insert throws on a \<open>null\<close> amount, on an amount
  that does not fit the column, and on a reference that is stored already.
\<close>

definition createTransaction :: "ledger \<Rightarrow> transaction \<Rightarrow> db_error + ledger" where
  "createTransaction s data =
     (case amount data of
        None \<Rightarrow> Inl NotNullViolation
      | Some a \<Rightarrow>
          if \<not> fits_decimal a then Inl NumericOverflow
          else if reference data \<in> references s then Inl DuplicateReference
          else Inr (s\<lparr>transactions := transactions s @ [data]\<rparr>))"

text \<open>\<open>updateTransaction(reference, { status })\<close>, the only way the handlers call it.\<close>

definition updateTransaction :: "ledger \<Rightarrow> string \<Rightarrow> string \<Rightarrow> ledger" where
  "updateTransaction s ref st =
     s\<lparr>transactions :=
         map (\<lambda>t. if reference t = ref then t\<lparr>status := st\<rparr> else t) (transactions s)\<rparr>"

text \<open>\<open>... WHERE user_phone = $1 ORDER BY created_at DESC LIMIT $2\<close>.\<close>

definition getUserTransactions :: "ledger \<Rightarrow> string \<Rightarrow> nat \<Rightarrow> transaction list" where
  "getUserTransactions s ph limit =
     take limit (rev (filter (\<lambda>t. user_phone t = ph) (transactions s)))"

section \<open>The handlers of the database variant\<close>

text \<open>
  A handler takes the ledger and what it reads from outside (the fields of the request
  body, the clock readings of \<open>Date.now()\<close>, the gateway's answer) and returns the
  ledger it leaves and the response: the HTTP status and the JSON body. \<open>amount\<close> and
  \<open>loan_amount\<close> of a body are a whole number or absent; \<open>Math.round\<close> and
  \<open>parseFloat\<close> leave a whole number as it is.
\<close>

type_synonym response = "nat \<times> json"

definition num :: "int option \<Rightarrow> json" where
  "num a = (case a of None \<Rightarrow> JUndefined | Some n \<Rightarrow> JNum n)"

text \<open>\<open>!amount || amount < k\<close>\<close>

definition missing_or_below :: "int option \<Rightarrow> int \<Rightarrow> bool" where
  "missing_or_below a k = (case a of None \<Rightarrow> True | Some n \<Rightarrow> n = 0 \<or> n < k)"

definition failure :: "nat \<Rightarrow> string \<Rightarrow> response" where
  "failure c msg = (c, JObj [(''success'', JBool False), (''error'', JStr msg)])"

text \<open>\<open>app.get("/balance/:phone")\<close>\<close>

definition get_balance :: "ledger \<Rightarrow> string \<Rightarrow> ledger \<times> response" where
  "get_balance s ph =
     (case formatPhone (JStr ph) of
        None \<Rightarrow> (s, failure 400 ''Invalid phone number'')
      | Some fp \<Rightarrow>
          (case getOrCreateUser s fp of
             (u, s') \<Rightarrow>
               (s', (200, JObj [(''success'', JBool True), (''balance'', JNum (balance u)),
                                (''has_paid_fee'', JBool (has_paid_fee u)),
                                (''phone'', JStr (phone u))]))))"

text \<open>\<open>app.get("/transactions/:phone")\<close>\<close>

definition get_transactions :: "ledger \<Rightarrow> string \<Rightarrow> ledger \<times> response" where
  "get_transactions s ph =
     (case formatPhone (JStr ph) of
        None \<Rightarrow> (s, failure 400 ''Invalid phone number'')
      | Some fp \<Rightarrow>
          (s, (200, JObj [(''success'', JBool True),
                 (''transactions'', JArr (map (\<lambda>t.
                      JObj [(''reference'', JStr (reference t)), (''type'', JStr (type t)),
                            (''amount'', num (amount t)), (''status'', JStr (status t)),
                            (''description'', JStr (description t))])
                    (getUserTransactions s fp 50)))])))"

text \<open>
  \<open>app.post("/withdraw")\<close>. An insert or an update that throws is caught by the
  handler and answered with 500. Past the check of the minimum the amount is a number, so the
  \<open>None\<close> branch of the second case is never taken.
\<close>

definition post_withdraw :: "ledger \<Rightarrow> json \<Rightarrow> int option \<Rightarrow> nat \<Rightarrow> ledger \<times> response" where
  "post_withdraw s ph amt now =
     (case formatPhone ph of
        None \<Rightarrow> (s, failure 400 ''Invalid phone number'')
      | Some fp \<Rightarrow>
          if missing_or_below amt 100 then (s, failure 400 ''Minimum withdrawal is KES 100'')
          else
            (case amt of
               None \<Rightarrow> (s, failure 400 ''Minimum withdrawal is KES 100'')
             | Some a \<Rightarrow>
                 (case getOrCreateUser s fp of
                    (u, s1) \<Rightarrow>
                      if \<not> has_paid_fee u then
                        (s1, failure 403 ''You must pay the service fee before withdrawing'')
                      else if balance u < a then (s1, failure 400 ''Insufficient balance'')
                      else
                        (let ref = ''WD-'' @ string_of_nat now in
                         case createTransaction s1
                                \<lparr>reference = ref, user_phone = fp, type = ''withdrawal'',
                                 amount = Some a, status = ''processing'',
                                 description = ''Withdrawal of KES '' @ js_String (JNum a),
                                 metadata = JObj [(''withdrawal_to'', JStr fp)]\<rparr> of
                           Inl e \<Rightarrow> (s1, failure 500 ''Server error'')
                         | Inr s2 \<Rightarrow>
                             (case updateUserBalance s2 fp a False of
                                Inl e \<Rightarrow> (s2, failure 500 ''Server error'')
                              | Inr s3 \<Rightarrow>
                                  (s3,
                                   (200, JObj [(''success'', JBool True),
                                      (''message'',
                                         JStr ''Withdrawal request submitted successfully''),
                                      (''reference'', JStr ref), (''amount'', JNum a),
                                      (''new_balance'', JNum (balance u - a))])))))))"

text \<open>
  What a \<open>catch (err)\<close> gets: \<open>err.response?.data\<close> (\<open>undefined\<close> unless the gateway
  answered with an HTTP error) and \<open>err.message\<close>. The gateway's answer to a request
  is such an exception, or the body of its reply. The wording of the engine's and the
  driver's own messages is abbreviated.
\<close>

datatype thrown = Thrown json string

definition error_text :: "thrown \<Rightarrow> json" where
  "error_text err =
     (case err of Thrown d m \<Rightarrow> js_or (oprop d ''message'') (js_or (JStr m) (JStr ''Server error'')))"

definition type_error :: thrown where
  "type_error = Thrown JUndefined ''Cannot read properties of undefined''"

definition db_thrown :: "db_error \<Rightarrow> thrown" where
  "db_thrown e =
     (case e of
        DuplicateReference \<Rightarrow> Thrown JUndefined ''duplicate key value violates unique constraint''
      | NotNullViolation \<Rightarrow> Thrown JUndefined ''null value violates not-null constraint''
      | NumericOverflow \<Rightarrow> Thrown JUndefined ''numeric field overflow'')"

text \<open>The variables the poll timer's callback closes over.\<close>

record poll =
  poll_reference :: string
  formattedPhone :: string
  loan_amount :: "int option"
  transaction_reference :: json

text \<open>
  The \<open>catch\<close> block of \<open>app.post("/pay")\<close>. Its own insert is not guarded: when it
  throws, the handler ends without a response (\<open>None\<close>).
\<close>

definition pay_catch ::
  "ledger \<Rightarrow> json \<Rightarrow> int option \<Rightarrow> int option \<Rightarrow> thrown \<Rightarrow> nat \<Rightarrow> ledger \<times> response option" where
  "pay_catch s ph amt la err now =
     (let ref = ''ORDER-'' @ string_of_nat now;
          resp = (500, JObj [(''success'', JBool False), (''error'', error_text err),
                             (''reference'', JStr ref)])
      in case formatPhone ph of
           None \<Rightarrow> (s, Some resp)
         | Some fp \<Rightarrow>
             (case createTransaction s
                     \<lparr>reference = ref, user_phone = fp, type = ''service_fee'',
                      amount = (if truthy (num amt) then amt else None), status = ''error'',
                      description = ''System error occurred'',
                      metadata = JObj [(''loan_amount'', js_or (num la) (JStr ''50000''))]\<rparr> of
                Inl e \<Rightarrow> (s, None)
              | Inr s' \<Rightarrow> (s', Some resp)))"

text \<open>
  \<open>app.post("/pay")\<close>: \<open>now\<close> is the clock of the \<open>try\<close> block, \<open>now'\<close> the clock of the
  \<open>catch\<close> block, \<open>gw\<close> the gateway's answer to the initiation. The third component
  is the poll timer the handler starts, if it starts one.
\<close>

definition post_pay ::
  "ledger \<Rightarrow> json \<Rightarrow> int option \<Rightarrow> int option \<Rightarrow> nat \<Rightarrow> thrown + json \<Rightarrow> nat
     \<Rightarrow> ledger \<times> response option \<times> poll option" where
  "post_pay s ph amt la now gw now' =
     (case formatPhone ph of
        None \<Rightarrow> (s, Some (failure 400 ''Invalid phone format''), None)
      | Some fp \<Rightarrow>
          if missing_or_below amt 1 then
            (s, Some (failure 400 ''Amount must be >= 1''), None)
          else
            (let ref = ''ORDER-'' @ string_of_nat now;
                 s1 = snd (getOrCreateUser s fp);
                 catch = (\<lambda>err. case pay_catch s1 ph amt la err now' of (s', r) \<Rightarrow> (s', r, None))
             in case gw of
                  Inl err \<Rightarrow> catch err
                | Inr data \<Rightarrow>
                    if truthy data \<and> truthy (oprop data ''success'') then
                      (case get_prop (oprop data ''data'') ''transaction_reference'' of
                         None \<Rightarrow> catch type_error
                       | Some tr \<Rightarrow>
                           (let tref = js_or tr JNull in
                            case createTransaction s1
                                   \<lparr>reference = ref, user_phone = fp, type = ''service_fee'',
                                    amount = amt, status = ''pending'',
                                    description =
                                      ''Service fee payment for loan of KES '' @ js_String (num la),
                                    metadata = JObj [(''transaction_id'', tref),
                                      (''loan_amount'', js_or (num la) (JStr ''50000''))]\<rparr> of
                              Inl e \<Rightarrow> catch (db_thrown e)
                            | Inr s2 \<Rightarrow>
                                (s2,
                                 Some (200, JObj [(''success'', JBool True),
                                    (''message'', JStr ''STK push sent, check your phone''),
                                    (''reference'', JStr ref)]),
                                 if truthy tref then
                                   Some \<lparr>poll_reference = ref, formattedPhone = fp,
                                         loan_amount = la, transaction_reference = tref\<rparr>
                                 else None)))
                    else
                      (case createTransaction s1
                              \<lparr>reference = ref, user_phone = fp, type = ''service_fee'',
                               amount = amt, status = ''failed'',
                               description = ''STK push failed to send'',
                               metadata = JObj [(''loan_amount'', js_or (num la) (JStr ''50000''))]\<rparr> of
                         Inl e \<Rightarrow> catch (db_thrown e)
                       | Inr s2 \<Rightarrow>
                           (s2,
                            Some (400, JObj [(''success'', JBool False),
                               (''error'', js_or (oprop data ''message'')
                                  (JStr ''STK push failed to send. Try again later.''))]),
                            None))))"

text \<open>
  One tick of the poll timer that \<open>app.post("/pay")\<close> starts with \<open>setInterval\<close>:
  \<open>reply\<close> is the gateway's answer to the status query, \<open>now\<close> the clock of the
  settle block. Whatever the \<open>try\<close> block throws is caught, logged and dropped. The
  second component tells whether the timer is still set after the tick
  (\<open>clearInterval\<close> makes it \<open>False\<close>).
\<close>

definition poll_status :: "thrown + json \<Rightarrow> (json \<times> string) option" where
  "poll_status reply =
     (case reply of
        Inl err \<Rightarrow> None
      | Inr data \<Rightarrow>
          (let payData = js_or (oprop data ''data'') (JObj []) in
           case lower_or_empty (oprop payData ''status'') of
             None \<Rightarrow> None
           | Some payStatus \<Rightarrow> Some (payData, payStatus)))"

text \<open>\<open>loan_amount || 50000\<close>\<close>

definition loanAmount :: "int option \<Rightarrow> int" where
  "loanAmount la = (case la of None \<Rightarrow> 50000 | Some n \<Rightarrow> if n = 0 then 50000 else n)"

definition poll_tick :: "ledger \<Rightarrow> poll \<Rightarrow> thrown + json \<Rightarrow> nat \<Rightarrow> ledger \<times> bool" where
  "poll_tick s p reply now =
     (case poll_status reply of
        None \<Rightarrow> (s, True)
      | Some (payData, payStatus) \<Rightarrow>
          if payStatus = ''completed'' \<or> payStatus = ''processing'' then
            (let s1 = updateTransaction s (poll_reference p) ''completed'';
                 s2 = markUserFeePaid s1 (formattedPhone p)
             in case updateUserBalance s2 (formattedPhone p) (loanAmount (loan_amount p)) True of
                  Inl e \<Rightarrow> (s2, True)
                | Inr s3 \<Rightarrow>
                    (case createTransaction s3
                            \<lparr>reference = ''LOAN-'' @ string_of_nat now,
                             user_phone = formattedPhone p, type = ''loan_disbursement'',
                             amount = Some (loanAmount (loan_amount p)), status = ''completed'',
                             description =
                               ''Loan disbursement of KES '' @
                               js_String (JNum (loanAmount (loan_amount p))),
                             metadata = JObj [(''related_payment'', JStr (poll_reference p))]\<rparr> of
                       Inl e \<Rightarrow> (s3, True)
                     | Inr s4 \<Rightarrow> (s4, False)))
          else if payStatus = ''failed'' \<or> payStatus = ''cancelled'' then
            (updateTransaction s (poll_reference p) ''failed'', False)
          else (s, True))"

text \<open>\<open>app.get("/receipt/:reference")\<close>\<close>

definition get_receipt :: "ledger \<Rightarrow> string \<Rightarrow> response" where
  "get_receipt s ref =
     (case find_transaction s ref of
        None \<Rightarrow> failure 404 ''Receipt not found''
      | Some t \<Rightarrow>
          (200, JObj [(''success'', JBool True),
             (''receipt'', JObj [(''reference'', JStr (reference t)), (''amount'', num (amount t)),
                (''status'', JStr (status t)), (''phone'', JStr (user_phone t)),
                (''description'', JStr (description t)), (''metadata'', metadata t)])]))"

text \<open>\<open>app.post("/callback")\<close> of the database variant: it logs the body and acknowledges.\<close>

definition post_callback :: "ledger \<Rightarrow> json \<Rightarrow> ledger \<times> response" where
  "post_callback s body =
     (s, (200, JObj [(''ResultCode'', JNum 0), (''ResultDesc'', JStr ''Success'')]))"

text \<open>
  A transaction under reconciliation: the ledger and whether its poll timer is set. A
  tick happens only while the timer is set; a callback can arrive at any time.
\<close>

datatype event = Tick "thrown + json" nat | Callback json

fun step :: "poll \<Rightarrow> ledger \<times> bool \<Rightarrow> event \<Rightarrow> ledger \<times> bool" where
  "step p (s, running) (Tick reply now) = (if running then poll_tick s p reply now else (s, running))"
| "step p (s, running) (Callback body) = (fst (post_callback s body), running)"

definition run :: "poll \<Rightarrow> ledger \<times> bool \<Rightarrow> event list \<Rightarrow> ledger \<times> bool" where
  "run p st evs = foldl (step p) st evs"

section \<open>The legacy variant: receipts in a JSON file\<close>

text \<open>
  \<open>server.js\<close> keeps one JSON object in \<open>receipts.json\<close>: a receipt (itself an object)
  under each reference. \<open>readReceipts\<close> and \<open>writeReceipts\<close> are taken to succeed, so
  the file is the list of its entries; \<open>receipts[ref] = r\<close> is \<open>AList.update ref r\<close>.
  \<open>new Date().toISOString()\<close> is kept as the clock reading it prints, in
  milliseconds, which is what \<open>new Date(r.timestamp).getTime()\<close> reads back.
\<close>

type_synonym receipt = "(string \<times> json) list"

type_synonym receipts = "(string \<times> receipt) list"

definition field :: "receipt \<Rightarrow> string \<Rightarrow> json" where
  "field r k = (case map_of r k of None \<Rightarrow> JUndefined | Some v \<Rightarrow> v)"

text \<open>The three bytes of the check mark that two status notes start with.\<close>

definition check_mark :: string where
  "check_mark = [CHR 0xE2, CHR 0x9C, CHR 0x85]"

text \<open>The \<open>catch\<close> block of the legacy \<open>app.post("/pay")\<close>.\<close>

definition pay_catch_legacy ::
  "receipts \<Rightarrow> json \<Rightarrow> int option \<Rightarrow> int option \<Rightarrow> thrown \<Rightarrow> nat \<Rightarrow> nat
     \<Rightarrow> receipts \<times> response \<times> poll option" where
  "pay_catch_legacy rs ph amt la err now ts =
     (let ref = ''ORDER-'' @ string_of_nat now;
          errorReceipt =
            [(''reference'', JStr ref), (''transaction_id'', JNull),
             (''amount'', if truthy (num amt) then num amt else JNull),
             (''loan_amount'', js_or (num la) (JStr ''50000'')),
             (''phone'', case formatPhone ph of None \<Rightarrow> JNull | Some fp \<Rightarrow> JStr fp),
             (''status'', JStr ''error''),
             (''status_note'', JStr ''System error occurred. Please try again later.''),
             (''timestamp'', JNum (int ts))]
      in (AList.update ref errorReceipt rs,
          (500, JObj [(''success'', JBool False), (''error'', error_text err),
                      (''reference'', JStr ref)]),
          None))"

text \<open>
  The legacy \<open>app.post("/pay")\<close>: \<open>now\<close> and \<open>ts\<close> are the clock readings of the
  \<open>try\<close> block (for the reference and for the timestamp), \<open>now'\<close> and \<open>ts'\<close>
  those of the \<open>catch\<close> block.
\<close>

definition post_pay_legacy ::
  "receipts \<Rightarrow> json \<Rightarrow> int option \<Rightarrow> int option \<Rightarrow> nat \<Rightarrow> nat \<Rightarrow> thrown + json \<Rightarrow> nat \<Rightarrow> nat
     \<Rightarrow> receipts \<times> response \<times> poll option" where
  "post_pay_legacy rs ph amt la now ts gw now' ts' =
     (case formatPhone ph of
        None \<Rightarrow> (rs, failure 400 ''Invalid phone format'', None)
      | Some fp \<Rightarrow>
          if missing_or_below amt 1 then (rs, failure 400 ''Amount must be >= 1'', None)
          else
            (let ref = ''ORDER-'' @ string_of_nat now;
                 catch = (\<lambda>err. pay_catch_legacy rs ph amt la err now' ts')
             in case gw of
                  Inl err \<Rightarrow> catch err
                | Inr data \<Rightarrow>
                    if truthy data \<and> truthy (oprop data ''success'') then
                      (case get_prop (oprop data ''data'') ''transaction_reference'' of
                         None \<Rightarrow> catch type_error
                       | Some tr \<Rightarrow>
                           (let tref = js_or tr JNull;
                                receiptData =
                                  [(''reference'', JStr ref), (''transaction_id'', tref),
                                   (''transaction_code'', JNull), (''amount'', num amt),
                                   (''loan_amount'', js_or (num la) (JStr ''50000'')),
                                   (''phone'', JStr fp), (''customer_name'', JStr ''N/A''),
                                   (''status'', JStr ''pending''),
                                   (''status_note'', JStr (''STK push sent to '' @ fp @
                                      ''. Enter your M-Pesa PIN to complete.'')),
                                   (''timestamp'', JNum (int ts))]
                            in (AList.update ref receiptData rs,
                                (200, JObj [(''success'', JBool True),
                                   (''message'', JStr ''STK push sent, check your phone''),
                                   (''reference'', JStr ref), (''receipt'', JObj receiptData)]),
                                if truthy tref then
                                  Some \<lparr>poll_reference = ref, formattedPhone = fp,
                                        loan_amount = la, transaction_reference = tref\<rparr>
                                else None)))
                    else
                      (let failedReceipt =
                             [(''reference'', JStr ref),
                              (''transaction_id'',
                                 js_or (oprop (oprop data ''data'') ''transaction_reference'') JNull),
                              (''amount'', num amt),
                              (''loan_amount'', js_or (num la) (JStr ''50000'')),
                              (''phone'', JStr fp), (''status'', JStr ''stk_failed''),
                              (''status_note'', js_or (oprop data ''message'')
                                 (JStr ''STK push failed to send. Try again later.'')),
                              (''timestamp'', JNum (int ts))]
                       in (AList.update ref failedReceipt rs,
                           (400, JObj [(''success'', JBool False),
                                       (''error'', field failedReceipt ''status_note'')]),
                           None))))"

text \<open>
  One tick of the legacy poll timer; \<open>ts\<close> is the clock of the new timestamp. A
  receipt that is gone stops the timer.
\<close>

definition poll_tick_legacy :: "receipts \<Rightarrow> poll \<Rightarrow> thrown + json \<Rightarrow> nat \<Rightarrow> receipts \<times> bool" where
  "poll_tick_legacy rs p reply ts =
     (case poll_status reply of
        None \<Rightarrow> (rs, True)
      | Some (payData, payStatus) \<Rightarrow>
          (case map_of rs (poll_reference p) of
             None \<Rightarrow> (rs, False)
           | Some current \<Rightarrow>
               if payStatus = ''completed'' \<or> payStatus = ''processing'' then
                 (let c1 = AList.update ''status'' (JStr ''processing'') current;
                      c2 = AList.update ''transaction_code''
                             (js_or (oprop payData ''mpesa_receipt_number'')
                                (js_or (oprop payData ''mpesa_transaction_id'')
                                   (field c1 ''transaction_code''))) c1;
                      c3 = AList.update ''amount''
                             (js_or (oprop payData ''amount'') (field c2 ''amount'')) c2;
                      c4 = AList.update ''phone''
                             (js_or (oprop payData ''mobile_number'') (field c3 ''phone'')) c3;
                      c5 = AList.update ''status_note''
                             (JStr (check_mark @ '' Payment received. Loan Reference: '' @
                                poll_reference p @ ''. Processing started.'')) c4;
                      c6 = AList.update ''timestamp'' (JNum (int ts)) c5
                  in (AList.update (poll_reference p) c6 rs, False))
               else if payStatus = ''failed'' \<or> payStatus = ''cancelled'' then
                 (let c1 = AList.update ''status'' (JStr ''cancelled'') current;
                      c2 = AList.update ''status_note''
                             (js_or (oprop payData ''failure_reason'')
                                (JStr ''Payment failed or cancelled.'')) c1;
                      c3 = AList.update ''timestamp'' (JNum (int ts)) c2
                  in (AList.update (poll_reference p) c3 rs, False))
               else (rs, True)))"

text \<open>
  Reading and writing \<open>receipts[ref]\<close>. A reference that is not a string is turned
  into one when it is used as a key: an object prints as \<open>[object Object]\<close> unless it
  has a property \<open>toString\<close> of its own, which no JSON value can call, so that the
  conversion throws (\<open>None\<close>); an array prints its elements joined by commas, \<open>null\<close> as
  nothing. \<open>String\<close> prints a whole number below \<open>2^53\<close> digit by digit; \<open>printable\<close> says
  that a value holds no other number where it is printed.

  The receipts object inherits from \<open>Object.prototype\<close>. Under a key that names one of
  its functions and is not in the file, \<open>receipts[ref]\<close> reads that function: the
  handler then writes its three fields into the function and \<open>JSON.stringify\<close> leaves
  the function out, so the file stays as it is. Under \<open>__proto__\<close> it reads
  \<open>Object.prototype\<close> itself and writes the fields there, where every object of the
  process inherits them from then on. The handlers are modelled in a process where that
  has not happened.
\<close>

fun key_string :: "json \<Rightarrow> string option" where
  "key_string (JObj fs) = (if map_of fs ''toString'' = None then Some ''[object Object]'' else None)"
| "key_string (JArr xs) =
     (let ss = map (\<lambda>x. if x = JUndefined \<or> x = JNull then Some [] else key_string x) xs
      in if None \<in> set ss then None else Some (join_comma (map the ss)))"
| "key_string v = Some (js_String v)"

fun printable :: "json \<Rightarrow> bool" where
  "printable (JNum n) = (\<bar>n\<bar> < 2 ^ 53)"
| "printable (JArr xs) = list_all printable xs"
| "printable v = True"

definition prototype_functions :: "string list" where
  "prototype_functions =
     [''constructor'', ''__defineGetter__'', ''__defineSetter__'', ''hasOwnProperty'',
      ''__lookupGetter__'', ''__lookupSetter__'', ''isPrototypeOf'', ''propertyIsEnumerable'',
      ''toString'', ''valueOf'', ''toLocaleString'']"

text \<open>
  \<open>processWebhookData(data)\<close> ends in one of three ways: it throws a TypeError before
  it writes anything; it returns, the file holding the receipts given; or it returns
  having written into \<open>Object.prototype\<close>, the file being as it was.
\<close>

datatype webhook_outcome = Threw | Returned receipts | Polluted

definition refCandidates :: "json \<Rightarrow> json list" where
  "refCandidates data =
     filter truthy
       [oprop data ''external_reference'', oprop data ''transaction_reference'',
        oprop data ''reference'', oprop (oprop data ''data'') ''transaction_reference'']"

definition processWebhookData :: "receipts \<Rightarrow> json \<Rightarrow> nat \<Rightarrow> webhook_outcome" where
  "processWebhookData rs data ts =
     (case get_prop data ''external_reference'' of
        None \<Rightarrow> Threw
      | Some c \<Rightarrow>
          (case refCandidates data of
             [] \<Rightarrow> Returned rs
           | ref # cs \<Rightarrow>
               (case key_string ref of
                  None \<Rightarrow> Threw
                | Some key \<Rightarrow>
                    (let payData = js_or (oprop data ''data'') data in
                     case lower_or_empty (oprop payData ''status'') of
                       None \<Rightarrow> Threw
                     | Some st \<Rightarrow>
                         if map_of rs key = None \<and> key = ''__proto__'' then Polluted
                         else if map_of rs key = None \<and> key \<in> set prototype_functions
                         then Returned rs
                         else
                           (let receipt = (case map_of rs key of None \<Rightarrow> [] | Some r \<Rightarrow> r);
                                r1 =
                                  (if st = ''completed'' \<or> oprop payData ''result_code'' = JNum 0
                                   then
                                     AList.update ''status_note''
                                       (JStr (check_mark @
                                          '' Payment verified. Loan processing started.''))
                                       (AList.update ''status'' (JStr ''processing'') receipt)
                                   else
                                     AList.update ''status_note''
                                       (js_or (oprop payData ''failure_reason'')
                                          (js_or (oprop (oprop payData ''result'') ''ResultDesc'')
                                             (JStr ''Payment failed or cancelled.'')))
                                       (AList.update ''status'' (JStr ''cancelled'') receipt));
                                r2 = AList.update ''timestamp'' (JNum (int ts)) r1
                            in Returned (AList.update key r2 rs))))))"

text \<open>
  The reference the webhook uses, in the words of the specification: the first
  non-empty field among \<open>external_reference\<close>, \<open>transaction_reference\<close>, \<open>reference\<close>
  and \<open>data.transaction_reference\<close>. It is compared with \<open>refCandidates\<close> below.
\<close>

definition first_candidate :: "json \<Rightarrow> json" where
  "first_candidate data =
     (if truthy (oprop data ''external_reference'') then oprop data ''external_reference''
      else if truthy (oprop data ''transaction_reference'') then oprop data ''transaction_reference''
      else if truthy (oprop data ''reference'') then oprop data ''reference''
      else oprop (oprop data ''data'') ''transaction_reference'')"

text \<open>
  The legacy \<open>app.post("/callback")\<close>: what \<open>processWebhookData\<close> did, and the
  response. An exception of \<open>processWebhookData\<close> goes to the framework, which answers
  500.
\<close>

definition post_callback_legacy :: "receipts \<Rightarrow> json \<Rightarrow> nat \<Rightarrow> webhook_outcome \<times> response" where
  "post_callback_legacy rs body ts =
     (case processWebhookData rs body ts of
        Threw \<Rightarrow> (Threw, (500, JStr ''Internal Server Error''))
      | out \<Rightarrow> (out, (200, JObj [(''ResultCode'', JNum 0), (''ResultDesc'', JStr ''Success'')])))"

text \<open>
  The legacy \<open>app.get("/receipt/:reference")\<close>. Under a key that is not in the file and
  names a function of \<open>Object.prototype\<close> the receipt is that function, which the JSON
  of the response leaves out; under \<open>__proto__\<close> it is \<open>Object.prototype\<close>, an object
  with nothing to print.
\<close>

definition get_receipt_legacy :: "receipts \<Rightarrow> string \<Rightarrow> response" where
  "get_receipt_legacy rs ref =
     (case map_of rs ref of
        Some r \<Rightarrow> (200, JObj [(''success'', JBool True), (''receipt'', JObj r)])
      | None \<Rightarrow>
          if ref = ''__proto__'' then (200, JObj [(''success'', JBool True), (''receipt'', JObj [])])
          else if ref \<in> set prototype_functions then (200, JObj [(''success'', JBool True)])
          else failure 404 ''Receipt not found'')"

text \<open>
  The job of \<open>cron.schedule("*/5 * * * *", ...)\<close>: one pass over the receipts, \<open>now\<close>
  being \<open>Date.now()\<close>. A timestamp that is not a date reads as \<open>NaN\<close> (\<open>None\<close>),
  and no comparison with \<open>NaN\<close> holds. The timestamps the program writes are numbers
  here, so a string is never a date.
\<close>

definition cron_schedule :: string where
  "cron_schedule = ''*/5 * * * *''"

fun getTime :: "json \<Rightarrow> int option" where
  "getTime (JNum t) = Some t"
| "getTime JNull = Some 0"
| "getTime (JBool b) = Some (if b then 1 else 0)"
| "getTime v = None"

definition release :: "nat \<Rightarrow> receipt \<Rightarrow> receipt" where
  "release now r =
     (if field r ''status'' = JStr ''processing'' then
        (case getTime (field r ''timestamp'') of
           None \<Rightarrow> r
         | Some t \<Rightarrow>
             if int now \<ge> t + 24 * 60 * 60 * 1000 then
               AList.update ''status_note''
                 (JStr ''Loan has been released to your account. Thank you.'')
                 (AList.update ''status'' (JStr ''loan_released'') r)
             else r)
      else r)"

fun cron_job :: "receipts \<Rightarrow> nat \<Rightarrow> receipts" where
  "cron_job [] now = []"
| "cron_job ((ref, r) # rs) now = (ref, release now r) # cron_job rs now"

section \<open>Runs of the database variant\<close>

text \<open>
  The handlers and timer callbacks of one process run one after the other on the
  ledger. A run is the list of what arrives: requests, ticks of poll timers and
  webhooks, each with what it reads from outside.
\<close>

datatype request =
    Pay json "int option" "int option" nat "thrown + json" nat
  | Withdraw json "int option" nat
  | Balance string
  | Transactions string
  | Receipt string
  | TimerTick poll "thrown + json" nat
  | Webhook json

fun serve :: "ledger \<Rightarrow> request \<Rightarrow> ledger \<times> response option" where
  "serve s (Pay ph amt la now gw now') =
     (case post_pay s ph amt la now gw now' of (s', r, p) \<Rightarrow> (s', r))"
| "serve s (Withdraw ph amt now) = (case post_withdraw s ph amt now of (s', r) \<Rightarrow> (s', Some r))"
| "serve s (Balance ph) = (case get_balance s ph of (s', r) \<Rightarrow> (s', Some r))"
| "serve s (Transactions ph) = (case get_transactions s ph of (s', r) \<Rightarrow> (s', Some r))"
| "serve s (Receipt ref) = (s, Some (get_receipt s ref))"
| "serve s (TimerTick p reply now) = (fst (poll_tick s p reply now), None)"
| "serve s (Webhook body) = (case post_callback s body of (s', r) \<Rightarrow> (s', Some r))"

text \<open>The \<open>reference\<close> a response carries, if it carries one.\<close>

definition returned_reference :: "response option \<Rightarrow> string list" where
  "returned_reference r =
     (case r of
        None \<Rightarrow> []
      | Some (c, b) \<Rightarrow> (case oprop b ''reference'' of JStr ref \<Rightarrow> [ref] | _ \<Rightarrow> []))"

text \<open>The references that the responses to the \<open>/pay\<close> requests of a run carry, in order.\<close>

fun pay_references :: "ledger \<Rightarrow> request list \<Rightarrow> string list" where
  "pay_references s [] = []"
| "pay_references s (r # rs) =
     (case serve s r of
        (s', resp) \<Rightarrow>
          (case r of Pay ph amt la now gw now' \<Rightarrow> returned_reference resp | _ \<Rightarrow> [])
          @ pay_references s' rs)"

text \<open>
  The settle block of a tick, in two parts: the ledger after its three updates (without
  the third when that one throws), and the row it then inserts.
\<close>

definition settled :: "ledger \<Rightarrow> poll \<Rightarrow> ledger" where
  "settled s p =
     (let s2 = markUserFeePaid (updateTransaction s (poll_reference p) ''completed'')
                 (formattedPhone p)
      in case updateUserBalance s2 (formattedPhone p) (loanAmount (loan_amount p)) True of
           Inl e \<Rightarrow> s2
         | Inr s3 \<Rightarrow> s3)"

definition disbursement :: "poll \<Rightarrow> nat \<Rightarrow> transaction" where
  "disbursement p now =
     \<lparr>reference = ''LOAN-'' @ string_of_nat now,
      user_phone = formattedPhone p, type = ''loan_disbursement'',
      amount = Some (loanAmount (loan_amount p)), status = ''completed'',
      description = ''Loan disbursement of KES '' @ js_String (JNum (loanAmount (loan_amount p))),
      metadata = JObj [(''related_payment'', JStr (poll_reference p))]\<rparr>"

section \<open>Example states\<close>

definition two_receipts :: receipts where
  "two_receipts =
     [(''ORDER-1'', [(''status'', JStr ''processing''), (''timestamp'', JNum 1000)]),
      (''ORDER-2'', [(''status'', JStr ''pending''), (''timestamp'', JNum 1000)])]"

definition empty_ledger :: ledger where
  "empty_ledger = \<lparr>users = Map.empty, transactions = []\<rparr>"

definition rich_unpaid :: ledger where
  "rich_unpaid =
     \<lparr>users = [''254712345678'' \<mapsto> \<lparr>phone = ''254712345678'', balance = 90000, has_paid_fee = False\<rparr>],
      transactions = []\<rparr>"

definition pending_reply :: "thrown + json" where
  "pending_reply = Inr (JObj [(''data'', JObj [(''status'', JStr ''PENDING'')])])"

definition poll1 :: poll where
  "poll1 = \<lparr>poll_reference = ''ORDER-1'', formattedPhone = ''254712345678'',
             loan_amount = Some 20000, transaction_reference = JStr ''TX1''\<rparr>"

definition ledger1 :: ledger where
  "ledger1 =
     \<lparr>users = [''254712345678'' \<mapsto> \<lparr>phone = ''254712345678'', balance = 0, has_paid_fee = False\<rparr>],
      transactions =
        [\<lparr>reference = ''ORDER-1'', user_phone = ''254712345678'', type = ''service_fee'',
          amount = Some 200, status = ''pending'',
          description = ''Service fee payment for loan of KES 20000'',
          metadata = JObj [(''transaction_id'', JStr ''TX1''), (''loan_amount'', JNum 20000)]\<rparr>]\<rparr>"

definition completed_reply :: "thrown + json" where
  "completed_reply = Inr (JObj [(''data'', JObj [(''status'', JStr ''completed'')])])"

definition completed_webhook :: json where
  "completed_webhook = JObj [(''reference'', JStr ''ORDER-1''), (''status'', JStr ''completed'')]"

definition other_loan :: transaction where
  "other_loan =
     \<lparr>reference = ''LOAN-5'', user_phone = ''254700000001'', type = ''loan_disbursement'',
      amount = Some 50000, status = ''completed'',
      description = ''Loan disbursement of KES 50000'',
      metadata = JObj [(''related_payment'', JStr ''ORDER-0'')]\<rparr>"

definition ledger2 :: ledger where
  "ledger2 = ledger1\<lparr>transactions := transactions ledger1 @ [other_loan]\<rparr>"

definition ok_reply :: "thrown + json" where
  "ok_reply = Inr (JObj [(''success'', JBool True),
                         (''data'', JObj [(''transaction_reference'', JStr ''TX1'')])])"

definition declined_reply :: "thrown + json" where
  "declined_reply = Inr (JObj [(''success'', JBool False), (''message'', JStr ''Insufficient funds'')])"

definition timeout_error :: "thrown + json" where
  "timeout_error = Inl (Thrown JUndefined ''timeout of 30000ms exceeded'')"

definition two_pays :: "request list" where
  "two_pays =
     [Pay (JStr ''0712345678'') (Some 200) (Some 20000) 5 ok_reply 6,
      Pay (JStr ''0799999999'') (Some 300) None 5 ok_reply 7]"

definition pending_receipts :: receipts where
  "pending_receipts =
     [(''ORDER-1'', [(''reference'', JStr ''ORDER-1''), (''status'', JStr ''pending''),
                     (''timestamp'', JNum 1000)])]"

definition processing_webhook :: json where
  "processing_webhook = JObj [(''reference'', JStr ''ORDER-1''), (''status'', JStr ''processing'')]"

definition queued_webhook :: json where
  "queued_webhook = JObj [(''reference'', JStr ''ORDER-1''), (''status'', JStr ''queued'')]"

definition processing_reply :: "thrown + json" where
  "processing_reply = Inr (JObj [(''data'', JObj [(''status'', JStr ''processing'')])])"

definition queued_reply :: "thrown + json" where
  "queued_reply = Inr (JObj [(''data'', JObj [(''status'', JStr ''queued'')])])"



definition tostring_webhook :: json where
  "tostring_webhook = JObj [(''reference'', JStr ''toString''), (''status'', JStr ''completed'')]"

section \<open>Properties of the phone normalizer\<close>

lemma falsy_digits: "\<not> truthy p \<Longrightarrow> length (strip_non_digits (js_String p)) \<le> 1"
  by (cases p) (auto simp: strip_non_digits_def is_digit_def string_of_nat.simps digit_char_def)

text \<open>
  C9. \<open>formatPhone\<close> is a function of the digits of its argument alone. With \<open>d\<close> the
  digits that are left of \<open>String(phone)\<close>: nine digits starting with 7 give
  \<open>"254" + d\<close>; ten digits starting with 07 give \<open>"254"\<close> and \<open>d\<close> without its first
  digit; twelve digits starting with 254 give \<open>d\<close>; every other shape gives \<open>null\<close>.
  So \<open>"0712345678"\<close>, \<open>"712345678"\<close> and \<open>"254712345678"\<close> (and the number 712345678)
  all give \<open>"254712345678"\<close>, and \<open>"12345"\<close> and \<open>"254"\<close> give \<open>null\<close>.
\<close>

theorem formatPhone_shapes:
  "(let d = strip_non_digits (js_String p) in
     (length d = 9 \<and> startsWith d ''7'' \<longrightarrow> formatPhone p = Some (''254'' @ d)) \<and>
     (length d = 10 \<and> startsWith d ''07'' \<longrightarrow> formatPhone p = Some (''254'' @ drop 1 d)) \<and>
     (length d = 12 \<and> startsWith d ''254'' \<longrightarrow> formatPhone p = Some d) \<and>
     (\<not> (length d = 9 \<and> startsWith d ''7'') \<and> \<not> (length d = 10 \<and> startsWith d ''07'') \<and>
      \<not> (length d = 12 \<and> startsWith d ''254'') \<longrightarrow> formatPhone p = None)) \<and>
   formatPhone (JStr ''0712345678'') = Some ''254712345678'' \<and>
   formatPhone (JStr ''712345678'') = Some ''254712345678'' \<and>
   formatPhone (JStr ''254712345678'') = Some ''254712345678'' \<and>
   formatPhone (JNum 712345678) = Some ''254712345678'' \<and>
   formatPhone (JStr ''+254 712-345-678'') = Some ''254712345678'' \<and>
   formatPhone (JStr ''12345'') = None \<and>
   formatPhone (JStr ''254'') = None"
proof -
  have ex: "formatPhone (JStr ''0712345678'') = Some ''254712345678''"
    "formatPhone (JStr ''712345678'') = Some ''254712345678''"
    "formatPhone (JStr ''254712345678'') = Some ''254712345678''"
    "formatPhone (JStr ''+254 712-345-678'') = Some ''254712345678''"
    "formatPhone (JStr ''12345'') = None"
    "formatPhone (JStr ''254'') = None"
    by (simp_all add: formatPhone_def strip_non_digits_def is_digit_def startsWith_def)
  have n: "formatPhone (JNum 712345678) = Some ''254712345678''"
    by (simp add: formatPhone_def strip_non_digits_def is_digit_def startsWith_def
        string_of_nat.simps digit_char_def)
  have g: "let d = strip_non_digits (js_String p) in
     (length d = 9 \<and> startsWith d ''7'' \<longrightarrow> formatPhone p = Some (''254'' @ d)) \<and>
     (length d = 10 \<and> startsWith d ''07'' \<longrightarrow> formatPhone p = Some (''254'' @ drop 1 d)) \<and>
     (length d = 12 \<and> startsWith d ''254'' \<longrightarrow> formatPhone p = Some d) \<and>
     (\<not> (length d = 9 \<and> startsWith d ''7'') \<and> \<not> (length d = 10 \<and> startsWith d ''07'') \<and>
      \<not> (length d = 12 \<and> startsWith d ''254'') \<longrightarrow> formatPhone p = None)"
  proof (cases "truthy p")
    case True
    then show ?thesis by (simp add: formatPhone_def Let_def)
  next
    case False
    from falsy_digits [OF False] False show ?thesis
      by (simp add: formatPhone_def Let_def)
  qed
  from ex n g show ?thesis by simp
qed

theorem formatPhone_shapes_witness:
  "length (strip_non_digits (js_String (JStr ''0712 345 678''))) = 10 \<and>
   startsWith (strip_non_digits (js_String (JStr ''0712 345 678''))) ''07'' \<and>
   formatPhone (JStr ''0712 345 678'') = Some ''254712345678''"
  using formatPhone_shapes [of "JStr ''0712 345 678''"]
  by (simp add: strip_non_digits_def is_digit_def startsWith_def)

section \<open>The release job of the legacy variant\<close>

lemma map_of_cron_job:
  "map_of (cron_job rs now) ref = map_option (release now) (map_of rs ref)"
  by (induction rs now rule: cron_job.induct) auto

lemma field_update: "field (AList.update k v r) k' = (if k' = k then v else field r k')"
  by (simp add: field_def update_conv')

lemma release_due:
  assumes "field r ''status'' = JStr ''processing''" "field r ''timestamp'' = JNum t"
    "t + 86400000 \<le> int now"
  shows "release now r =
     AList.update ''status_note'' (JStr ''Loan has been released to your account. Thank you.'')
       (AList.update ''status'' (JStr ''loan_released'') r)"
  using assms by (simp add: release_def)

lemma release_other:
  "field r ''status'' \<noteq> JStr ''processing'' \<Longrightarrow> release now r = r"
  "field r ''timestamp'' = JNum t \<Longrightarrow> int now < t + 86400000 \<Longrightarrow> release now r = r"
  by (simp_all add: release_def)

text \<open>
  C10. The job that the legacy variant schedules with \<open>*/5 * * * *\<close> (every five
  minutes) rewrites the receipts file in one pass: a receipt whose status is
  \<open>"processing"\<close> and whose timestamp lies 24 hours or more before the job's clock gets
  the status \<open>"loan_released"\<close> and the fixed release note, and keeps every other field;
  a receipt with another status, or one younger than 24 hours, stays as it is; no
  receipt is added or dropped.
\<close>

theorem cron_job_release:
  "cron_schedule = ''*/5 * * * *'' \<and>
   (map_of rs ref = None \<longrightarrow> map_of (cron_job rs now) ref = None) \<and>
   (\<forall>r. map_of rs ref = Some r \<longrightarrow>
      (\<exists>r'. map_of (cron_job rs now) ref = Some r' \<and>
        (\<forall>t. field r ''status'' = JStr ''processing'' \<and> field r ''timestamp'' = JNum t \<and>
             t + 24 * 60 * 60 * 1000 \<le> int now \<longrightarrow>
             field r' ''status'' = JStr ''loan_released'' \<and>
             field r' ''status_note'' = JStr ''Loan has been released to your account. Thank you.'' \<and>
             (\<forall>k. k \<noteq> ''status'' \<and> k \<noteq> ''status_note'' \<longrightarrow> field r' k = field r k)) \<and>
        (field r ''status'' \<noteq> JStr ''processing'' \<longrightarrow> r' = r) \<and>
        (\<forall>t. field r ''timestamp'' = JNum t \<and> int now < t + 24 * 60 * 60 * 1000 \<longrightarrow> r' = r)))"
proof (intro conjI allI impI)
  show "cron_schedule = ''*/5 * * * *''" by (simp add: cron_schedule_def)
next
  assume "map_of rs ref = None"
  then show "map_of (cron_job rs now) ref = None" by (simp add: map_of_cron_job)
next
  fix r assume r: "map_of rs ref = Some r"
  have 1: "map_of (cron_job rs now) ref = Some (release now r)"
    using r by (simp add: map_of_cron_job)
  have 2: "\<forall>t. field r ''status'' = JStr ''processing'' \<and> field r ''timestamp'' = JNum t \<and>
             t + 24 * 60 * 60 * 1000 \<le> int now \<longrightarrow>
             field (release now r) ''status'' = JStr ''loan_released'' \<and>
             field (release now r) ''status_note'' = JStr ''Loan has been released to your account. Thank you.'' \<and>
             (\<forall>k. k \<noteq> ''status'' \<and> k \<noteq> ''status_note'' \<longrightarrow> field (release now r) k = field r k)"
    by (auto simp: release_due field_update)
  have 3: "field r ''status'' \<noteq> JStr ''processing'' \<longrightarrow> release now r = r"
    by (simp add: release_other)
  have 4: "\<forall>t. field r ''timestamp'' = JNum t \<and> int now < t + 24 * 60 * 60 * 1000 \<longrightarrow> release now r = r"
    by (auto simp: release_other)
  from 1 2 3 4 show "\<exists>r'. map_of (cron_job rs now) ref = Some r' \<and>
        (\<forall>t. field r ''status'' = JStr ''processing'' \<and> field r ''timestamp'' = JNum t \<and>
             t + 24 * 60 * 60 * 1000 \<le> int now \<longrightarrow>
             field r' ''status'' = JStr ''loan_released'' \<and>
             field r' ''status_note'' = JStr ''Loan has been released to your account. Thank you.'' \<and>
             (\<forall>k. k \<noteq> ''status'' \<and> k \<noteq> ''status_note'' \<longrightarrow> field r' k = field r k)) \<and>
        (field r ''status'' \<noteq> JStr ''processing'' \<longrightarrow> r' = r) \<and>
        (\<forall>t. field r ''timestamp'' = JNum t \<and> int now < t + 24 * 60 * 60 * 1000 \<longrightarrow> r' = r)"
    by blast
qed

theorem cron_job_release_witness:
  "map_of two_receipts ''ORDER-1'' = Some [(''status'', JStr ''processing''), (''timestamp'', JNum 1000)] \<and>
   map_of two_receipts ''ORDER-2'' = Some [(''status'', JStr ''pending''), (''timestamp'', JNum 1000)] \<and>
   (\<exists>r'. map_of (cron_job two_receipts 86401000) ''ORDER-1'' = Some r' \<and>
      field r' ''status'' = JStr ''loan_released'' \<and>
      field r' ''timestamp'' = JNum 1000) \<and>
   map_of (cron_job two_receipts 86401000) ''ORDER-2'' =
     Some [(''status'', JStr ''pending''), (''timestamp'', JNum 1000)]"
proof -
  let ?r1 = "[(''status'', JStr ''processing''), (''timestamp'', JNum 1000)]"
  let ?r2 = "[(''status'', JStr ''pending''), (''timestamp'', JNum 1000)]"
  have m1: "map_of two_receipts ''ORDER-1'' = Some ?r1" by (simp add: two_receipts_def)
  have m2: "map_of two_receipts ''ORDER-2'' = Some ?r2" by (simp add: two_receipts_def)
  have f1: "field ?r1 ''status'' = JStr ''processing'' \<and> field ?r1 ''timestamp'' = JNum 1000 \<and>
    1000 + 24 * 60 * 60 * 1000 \<le> int 86401000"
    by (simp add: field_def)
  have f2: "field ?r2 ''status'' \<noteq> JStr ''processing''" by (simp add: field_def)
  note t1 = cron_job_release [of two_receipts "''ORDER-1''" 86401000,
      THEN conjunct2, THEN conjunct2, rule_format, OF m1]
  note t2 = cron_job_release [of two_receipts "''ORDER-2''" 86401000,
      THEN conjunct2, THEN conjunct2, rule_format, OF m2]
  from t1 obtain r' where a: "map_of (cron_job two_receipts 86401000) ''ORDER-1'' = Some r'"
    and b: "\<forall>t. field ?r1 ''status'' = JStr ''processing'' \<and> field ?r1 ''timestamp'' = JNum t \<and>
             t + 24 * 60 * 60 * 1000 \<le> int 86401000 \<longrightarrow>
             field r' ''status'' = JStr ''loan_released'' \<and>
             field r' ''status_note'' = JStr ''Loan has been released to your account. Thank you.'' \<and>
             (\<forall>k. k \<noteq> ''status'' \<and> k \<noteq> ''status_note'' \<longrightarrow> field r' k = field ?r1 k)"
    by blast
  from b [rule_format, OF f1] have c: "field r' ''status'' = JStr ''loan_released''"
    and d: "\<forall>k. k \<noteq> ''status'' \<and> k \<noteq> ''status_note'' \<longrightarrow> field r' k = field ?r1 k"
    by blast+
  from d [rule_format, of "''timestamp''"] have e: "field r' ''timestamp'' = JNum 1000"
    by (simp add: field_def)
  from t2 obtain r'' where a2: "map_of (cron_job two_receipts 86401000) ''ORDER-2'' = Some r''"
    and b2: "field ?r2 ''status'' \<noteq> JStr ''processing'' \<longrightarrow> r'' = ?r2"
    by blast
  from b2 f2 have "r'' = ?r2" by blast
  with a2 have g: "map_of (cron_job two_receipts 86401000) ''ORDER-2'' = Some ?r2" by simp
  from a c e have "\<exists>r'. map_of (cron_job two_receipts 86401000) ''ORDER-1'' = Some r' \<and>
      field r' ''status'' = JStr ''loan_released'' \<and> field r' ''timestamp'' = JNum 1000"
    by blast
  with m1 m2 g show ?thesis by blast
qed

section \<open>The poll tick on an unknown status\<close>

lemma lower_pending: "toLowerCase ''PENDING'' = ''pending''"
  by (simp add: toLowerCase_def lower_char_def)

lemma poll_status_pending:
  "poll_status pending_reply = Some (JObj [(''status'', JStr ''PENDING'')], ''pending'')"
  by (simp add: poll_status_def pending_reply_def oprop_def js_or_def lower_pending)

text \<open>
  C8. A poll tick that reads no status of the known set (\<open>completed\<close>, \<open>processing\<close>,
  \<open>failed\<close>, \<open>cancelled\<close>, compared in lower case), be it that the gateway reports
  another status or that the query or the reading of the status throws, leaves the
  store as it is, so a pending transaction stays pending, and leaves the timer set. In
  the database variant that holds of every tick; in the legacy variant of every tick
  that finds the receipt in the file.
\<close>

theorem poll_tick_unknown_status:
  assumes "poll_status reply = None \<or>
     (\<exists>payData st. poll_status reply = Some (payData, st) \<and>
        st \<notin> {''completed'', ''processing'', ''failed'', ''cancelled''})"
  shows "poll_tick s p reply now = (s, True) \<and>
     (\<forall>t. find_transaction s (poll_reference p) = Some t \<and> status t = ''pending'' \<longrightarrow>
        find_transaction (fst (poll_tick s p reply now)) (poll_reference p) = Some t) \<and>
     (\<forall>r. map_of rs (poll_reference p) = Some r \<longrightarrow> poll_tick_legacy rs p reply ts = (rs, True))"
proof -
  have a: "poll_tick s p reply now = (s, True)"
    using assms by (auto simp: poll_tick_def)
  have b: "\<forall>r. map_of rs (poll_reference p) = Some r \<longrightarrow> poll_tick_legacy rs p reply ts = (rs, True)"
    using assms by (auto simp: poll_tick_legacy_def)
  from a b show ?thesis by simp
qed

theorem poll_tick_unknown_status_witness:
  "poll_status pending_reply = Some (JObj [(''status'', JStr ''PENDING'')], ''pending'') \<and>
   poll_tick ledger1 poll1 pending_reply 5 = (ledger1, True) \<and>
   find_transaction (fst (poll_tick ledger1 poll1 pending_reply 5)) ''ORDER-1'' =
     find_transaction ledger1 ''ORDER-1''"
proof -
  have h: "poll_status pending_reply = None \<or>
     (\<exists>payData st. poll_status pending_reply = Some (payData, st) \<and>
        st \<notin> {''completed'', ''processing'', ''failed'', ''cancelled''})"
    by (simp add: poll_status_pending)
  from poll_tick_unknown_status [OF h, of ledger1 poll1 5 "[]" 0]
  have "poll_tick ledger1 poll1 pending_reply 5 = (ledger1, True)" by blast
  then show ?thesis by (simp add: poll_status_pending)
qed

section \<open>Rejected withdrawals\<close>

lemma phone_example: "formatPhone (JStr ''0712345678'') = Some ''254712345678''"
  by (simp add: formatPhone_def strip_non_digits_def is_digit_def startsWith_def)

lemma getOrCreateUser_frame:
  "transactions (snd (getOrCreateUser s fp)) = transactions s"
  "users s q = Some u \<Longrightarrow> users (snd (getOrCreateUser s fp)) q = Some u"
  "fst (getOrCreateUser (snd (getOrCreateUser s fp)) fp) = fst (getOrCreateUser s fp)"
  "users s fp = Some u \<Longrightarrow> getOrCreateUser s fp = (u, s)"
  "users s fp = None \<Longrightarrow> users (snd (getOrCreateUser s fp)) =
      (users s)(fp \<mapsto> \<lparr>phone = fp, balance = 0, has_paid_fee = False\<rparr>)"
  by (auto simp: getOrCreateUser_def Let_def split: option.splits)

text \<open>
  C7. \<open>POST /withdraw\<close> with a valid phone. An amount that is missing or below 100 is
  rejected with status 400 before the ledger is touched. A user whose \<open>has_paid_fee\<close>
  flag is false is rejected whatever the balance is: with 403 when the amount is 100 or
  more, with the 400 of the minimum otherwise. In the second case too no transaction is
  recorded, no stored user changes, and the balance of the requesting user is what it
  was (the only thing that can be new is the row of a user seen for the first time,
  with balance 0).
\<close>

theorem post_withdraw_rejections:
  assumes "formatPhone ph = Some fp"
  shows "(amt = None \<or> (\<exists>a. amt = Some a \<and> a < 100) \<longrightarrow>
           post_withdraw s ph amt now = (s, failure 400 ''Minimum withdrawal is KES 100'')) \<and>
         (\<not> has_paid_fee (fst (getOrCreateUser s fp)) \<longrightarrow>
           (\<forall>a. amt = Some a \<and> 100 \<le> a \<longrightarrow>
              post_withdraw s ph amt now =
                (snd (getOrCreateUser s fp),
                 failure 403 ''You must pay the service fee before withdrawing'')) \<and>
           (\<exists>c msg. snd (post_withdraw s ph amt now) = failure c msg \<and> (c = 400 \<or> c = 403)) \<and>
           transactions (fst (post_withdraw s ph amt now)) = transactions s \<and>
           (\<forall>q u. users s q = Some u \<longrightarrow> users (fst (post_withdraw s ph amt now)) q = Some u) \<and>
           balance (fst (getOrCreateUser (fst (post_withdraw s ph amt now)) fp)) =
             balance (fst (getOrCreateUser s fp)))"
proof -
  have low: "amt = None \<or> (\<exists>a. amt = Some a \<and> a < 100) \<Longrightarrow> missing_or_below amt 100"
    by (auto simp: missing_or_below_def)
  have a: "amt = None \<or> (\<exists>a. amt = Some a \<and> a < 100) \<longrightarrow>
           post_withdraw s ph amt now = (s, failure 400 ''Minimum withdrawal is KES 100'')"
    using assms low by (auto simp: post_withdraw_def)
  have b: "\<not> has_paid_fee (fst (getOrCreateUser s fp)) \<Longrightarrow> amt = Some a \<Longrightarrow> 100 \<le> a \<Longrightarrow>
     post_withdraw s ph amt now =
       (snd (getOrCreateUser s fp), failure 403 ''You must pay the service fee before withdrawing'')" for a
    using assms by (cases "getOrCreateUser s fp") (simp add: post_withdraw_def missing_or_below_def)
  have c: "missing_or_below amt 100 \<or> (\<exists>a. amt = Some a \<and> 100 \<le> a)"
    by (cases amt) (auto simp: missing_or_below_def)
  have d: "missing_or_below amt 100 \<Longrightarrow>
     post_withdraw s ph amt now = (s, failure 400 ''Minimum withdrawal is KES 100'')"
    using assms by (simp add: post_withdraw_def)
  {
    assume u: "\<not> has_paid_fee (fst (getOrCreateUser s fp))"
    from c have "(post_withdraw s ph amt now = (s, failure 400 ''Minimum withdrawal is KES 100'')) \<or>
       (post_withdraw s ph amt now =
         (snd (getOrCreateUser s fp), failure 403 ''You must pay the service fee before withdrawing''))"
      using b [OF u] d by blast
    then have "(\<exists>c msg. snd (post_withdraw s ph amt now) = failure c msg \<and> (c = 400 \<or> c = 403)) \<and>
           transactions (fst (post_withdraw s ph amt now)) = transactions s \<and>
           (\<forall>q u. users s q = Some u \<longrightarrow> users (fst (post_withdraw s ph amt now)) q = Some u) \<and>
           balance (fst (getOrCreateUser (fst (post_withdraw s ph amt now)) fp)) =
             balance (fst (getOrCreateUser s fp))"
    proof
      assume e: "post_withdraw s ph amt now = (s, failure 400 ''Minimum withdrawal is KES 100'')"
      show ?thesis unfolding e by auto
    next
      assume e: "post_withdraw s ph amt now =
         (snd (getOrCreateUser s fp), failure 403 ''You must pay the service fee before withdrawing'')"
      show ?thesis unfolding e by (auto simp: getOrCreateUser_frame)
    qed
  }
  with a b show ?thesis by blast
qed

theorem post_withdraw_rejections_witness:
  "formatPhone (JStr ''0712345678'') = Some ''254712345678'' \<and>
   post_withdraw rich_unpaid (JStr ''0712345678'') (Some 50) 7 =
     (rich_unpaid, failure 400 ''Minimum withdrawal is KES 100'') \<and>
   \<not> has_paid_fee (fst (getOrCreateUser rich_unpaid ''254712345678'')) \<and>
   post_withdraw rich_unpaid (JStr ''0712345678'') (Some 500) 7 =
     (rich_unpaid, failure 403 ''You must pay the service fee before withdrawing'')"
proof -
  have g: "getOrCreateUser rich_unpaid ''254712345678'' =
      (\<lparr>phone = ''254712345678'', balance = 90000, has_paid_fee = False\<rparr>, rich_unpaid)"
    by (simp add: getOrCreateUser_def rich_unpaid_def)
  have u: "\<not> has_paid_fee (fst (getOrCreateUser rich_unpaid ''254712345678''))"
    by (simp add: g)
  note t = post_withdraw_rejections [OF phone_example, of _ rich_unpaid 7]
  from t [of "Some 50"] have a: "post_withdraw rich_unpaid (JStr ''0712345678'') (Some 50) 7 =
     (rich_unpaid, failure 400 ''Minimum withdrawal is KES 100'')"
    by simp
  from t [of "Some 500"] u have "post_withdraw rich_unpaid (JStr ''0712345678'') (Some 500) 7 =
     (snd (getOrCreateUser rich_unpaid ''254712345678''),
      failure 403 ''You must pay the service fee before withdrawing'')"
    by simp
  then have b: "post_withdraw rich_unpaid (JStr ''0712345678'') (Some 500) 7 =
     (rich_unpaid, failure 403 ''You must pay the service fee before withdrawing'')"
    by (simp add: g)
  from phone_example a u b show ?thesis by blast
qed

section \<open>The ledger queries\<close>

text \<open>
  C5, as stated, fails: \<open>GET /balance/:phone\<close> for a valid phone that has no row yet
  inserts the row.
\<close>

theorem get_balance_creates_user:
  "fst (get_balance empty_ledger ''0712345678'') \<noteq> empty_ledger"
proof
  assume "fst (get_balance empty_ledger ''0712345678'') = empty_ledger"
  then have "users (fst (get_balance empty_ledger ''0712345678'')) ''254712345678'' =
     users empty_ledger ''254712345678''"
    by simp
  then show False
    by (simp add: get_balance_def phone_example getOrCreateUser_def empty_ledger_def Let_def)
qed

text \<open>
  C5, amended. \<open>GET /transactions/:phone\<close> leaves the ledger unchanged.
  \<open>GET /balance/:phone\<close> leaves the transactions and every stored user unchanged; for
  an invalid phone or a phone that has a row it leaves the whole ledger unchanged, and
  for a valid phone without a row it adds that row with balance 0 and
  \<open>has_paid_fee = false\<close>, and nothing else.
\<close>

theorem ledger_queries_frame:
  "fst (get_transactions s ph) = s \<and>
   transactions (fst (get_balance s ph)) = transactions s \<and>
   (\<forall>q u. users s q = Some u \<longrightarrow> users (fst (get_balance s ph)) q = Some u) \<and>
   (formatPhone (JStr ph) = None \<longrightarrow> fst (get_balance s ph) = s) \<and>
   (\<forall>fp. formatPhone (JStr ph) = Some fp \<longrightarrow>
      (users s fp \<noteq> None \<longrightarrow> fst (get_balance s ph) = s) \<and>
      (users s fp = None \<longrightarrow>
         fst (get_balance s ph) =
           s\<lparr>users := (users s)(fp \<mapsto> \<lparr>phone = fp, balance = 0, has_paid_fee = False\<rparr>)\<rparr>))"
proof -
  have a: "fst (get_transactions s ph) = s"
    by (simp add: get_transactions_def split: option.splits)
  have b: "fst (get_balance s ph) =
     (case formatPhone (JStr ph) of None \<Rightarrow> s | Some fp \<Rightarrow> snd (getOrCreateUser s fp))"
    by (simp add: get_balance_def split: option.splits prod.splits)
  have c: "transactions (fst (get_balance s ph)) = transactions s"
    unfolding b by (simp add: getOrCreateUser_frame split: option.splits)
  have d: "\<forall>q u. users s q = Some u \<longrightarrow> users (fst (get_balance s ph)) q = Some u"
    unfolding b by (simp add: getOrCreateUser_frame split: option.splits)
  have e: "formatPhone (JStr ph) = None \<longrightarrow> fst (get_balance s ph) = s"
    unfolding b by simp
  have f: "\<forall>fp. formatPhone (JStr ph) = Some fp \<longrightarrow>
      (users s fp \<noteq> None \<longrightarrow> fst (get_balance s ph) = s) \<and>
      (users s fp = None \<longrightarrow>
         fst (get_balance s ph) =
           s\<lparr>users := (users s)(fp \<mapsto> \<lparr>phone = fp, balance = 0, has_paid_fee = False\<rparr>)\<rparr>)"
    unfolding b by (auto simp: getOrCreateUser_def Let_def)
  from a c d e f show ?thesis by blast
qed

theorem ledger_queries_frame_witness:
  "formatPhone (JStr ''0712345678'') = Some ''254712345678'' \<and>
   users rich_unpaid ''254712345678'' \<noteq> None \<and>
   fst (get_balance rich_unpaid ''0712345678'') = rich_unpaid \<and>
   users empty_ledger ''254712345678'' = None \<and>
   fst (get_balance empty_ledger ''0712345678'') =
     empty_ledger\<lparr>users := (users empty_ledger)(''254712345678'' \<mapsto>
        \<lparr>phone = ''254712345678'', balance = 0, has_paid_fee = False\<rparr>)\<rparr>"
proof -
  have u: "users rich_unpaid ''254712345678'' \<noteq> None" by (simp add: rich_unpaid_def)
  have e: "users empty_ledger ''254712345678'' = None" by (simp add: empty_ledger_def)
  from ledger_queries_frame [of rich_unpaid "''0712345678''"] phone_example u
  have a: "fst (get_balance rich_unpaid ''0712345678'') = rich_unpaid" by blast
  from ledger_queries_frame [of empty_ledger "''0712345678''"] phone_example e
  have b: "fst (get_balance empty_ledger ''0712345678'') =
     empty_ledger\<lparr>users := (users empty_ledger)(''254712345678'' \<mapsto>
        \<lparr>phone = ''254712345678'', balance = 0, has_paid_fee = False\<rparr>)\<rparr>" by blast
  from phone_example u e a b show ?thesis by blast
qed

section \<open>The settle block of the poll tick\<close>

lemma find_append_left:
  "find P (xs @ ys) = (case find P xs of None \<Rightarrow> find P ys | Some x \<Rightarrow> Some x)"
  by (induction xs) auto


lemma references_updateTransaction [simp]:
  "references (updateTransaction s ref st) = references s"
proof -
  have "map reference (map (\<lambda>t. if reference t = ref then t\<lparr>status := st\<rparr> else t) xs) =
        map reference xs" for xs
    by (induction xs) auto
  from this [of "transactions s"] show ?thesis
    by (simp add: references_def updateTransaction_def)
qed

lemma updateUserBalance_Inr:
  "updateUserBalance s ph a b = Inr s' \<Longrightarrow>
     transactions s' = transactions s \<and> references s' = references s"
  by (auto simp: updateUserBalance_def references_def Let_def split: option.splits if_splits)

lemma references_users [simp]:
  "references (markUserFeePaid s ph) = references s"
  "references (snd (getOrCreateUser s ph)) = references s"
  by (auto simp: references_def markUserFeePaid_def getOrCreateUser_def
      Let_def split: option.splits)

lemma users_updateTransaction [simp]: "users (updateTransaction s ref st) = users s"
  by (simp add: updateTransaction_def)

lemma transactions_users [simp]:
  "transactions (markUserFeePaid s ph) = transactions s"
  by (auto simp: markUserFeePaid_def split: option.splits)

lemma transactions_settled [simp]:
  "transactions (settled s p) =
     transactions (updateTransaction s (poll_reference p) ''completed'')"
  by (auto simp: settled_def Let_def split: sum.splits dest: updateUserBalance_Inr)

lemma references_settled [simp]: "references (settled s p) = references s"
proof -
  have "references (settled s p) =
      references (updateTransaction s (poll_reference p) ''completed'')"
    unfolding references_def by simp
  then show ?thesis by simp
qed

lemma lower_completed: "toLowerCase ''completed'' = ''completed''"
  by (simp add: toLowerCase_def lower_char_def)

lemma poll_status_completed:
  "poll_status completed_reply = Some (JObj [(''status'', JStr ''completed'')], ''completed'')"
  by (simp add: poll_status_def completed_reply_def oprop_def js_or_def lower_completed)

lemma small_numerals:
  "string_of_nat 5 = ''5''" "string_of_nat 6 = ''6''" "string_of_nat 7 = ''7''"
  by (simp_all add: string_of_nat.simps digit_char_def)


lemma references_ledger2: "references ledger2 = {''ORDER-1'', ''LOAN-5''}"
  by (auto simp: references_def ledger2_def ledger1_def other_loan_def)


lemma users_settled:
  assumes "users s (formattedPhone p) = Some u"
    and "fits_decimal (balance u + loanAmount (loan_amount p))"
  shows "users (settled s p) =
     (users s)(formattedPhone p \<mapsto>
        u\<lparr>has_paid_fee := True, balance := balance u + loanAmount (loan_amount p)\<rparr>)"
  using assms by (simp add: settled_def updateUserBalance_def markUserFeePaid_def Let_def)

lemma settle_block_result:
  assumes "poll_status reply = Some (payData, st)" "st = ''completed'' \<or> st = ''processing''"
    and "users s (formattedPhone p) = Some u"
    and "fits_decimal (balance u + loanAmount (loan_amount p))"
    and "fits_decimal (loanAmount (loan_amount p))"
  shows "poll_tick s p reply now =
     (if ''LOAN-'' @ string_of_nat now \<in> references s then (settled s p, True)
      else (settled s p\<lparr>transactions := transactions (settled s p) @ [disbursement p now]\<rparr>, False))"
proof -
  let ?s2 = "markUserFeePaid (updateTransaction s (poll_reference p) ''completed'') (formattedPhone p)"
  from assms(3,4) obtain s3 where
    u: "updateUserBalance ?s2 (formattedPhone p) (loanAmount (loan_amount p)) True = Inr s3"
    by (simp add: updateUserBalance_def markUserFeePaid_def Let_def)
  then have s3: "settled s p = s3" by (simp add: settled_def Let_def)
  from updateUserBalance_Inr [OF u] have r: "references s3 = references s" by simp
  show ?thesis
    using assms(1,2,5) u r unfolding s3
    by (auto simp: poll_tick_def disbursement_def createTransaction_def Let_def)
qed




section \<open>Settling more than once\<close>

lemma poll1_facts:
  "formattedPhone poll1 = ''254712345678''" "loanAmount (loan_amount poll1) = 20000"
  "fits_decimal (loanAmount (loan_amount poll1))"
  by (simp_all add: poll1_def loanAmount_def fits_decimal_def)

lemma tick_dup:
  "poll_tick ledger2 poll1 completed_reply 5 = (settled ledger2 poll1, True)"
proof -
  have u: "users ledger2 (formattedPhone poll1) =
      Some \<lparr>phone = ''254712345678'', balance = 0, has_paid_fee = False\<rparr>"
    by (simp add: ledger2_def ledger1_def poll1_def)
  show ?thesis
    using settle_block_result [OF poll_status_completed _ u, of 5]
    by (simp add: references_ledger2 small_numerals poll1_facts fits_decimal_def)
qed

text \<open>
  C1, at a failing run. The transaction \<open>ORDER-1\<close> is pending and the ledger already
  holds a row \<open>LOAN-5\<close>. The tick at clock 5 reads \<open>completed\<close>: it credits the balance,
  its insert of \<open>LOAN-5\<close> throws, the exception is swallowed and the timer stays set.
  The webhook for \<open>ORDER-1\<close> changes nothing. The next tick reads \<open>completed\<close> again
  and credits the balance a second time: 40000 for a loan of 20000, with one
  disbursement row.
\<close>

theorem settle_credits_twice:
  "map_option balance (users ledger2 ''254712345678'') = Some 0 \<and>
   loanAmount (loan_amount poll1) = 20000 \<and>
   ''LOAN-'' @ string_of_nat 5 \<in> references ledger2 \<and>
   map_option balance
     (users (fst (run poll1 (ledger2, True)
        [Tick completed_reply 5, Callback completed_webhook, Tick completed_reply 6]))
      ''254712345678'') = Some 40000 \<and>
   map reference
     (filter (\<lambda>t. type t = ''loan_disbursement'' \<and>
                  metadata t = JObj [(''related_payment'', JStr ''ORDER-1'')])
        (transactions (fst (run poll1 (ledger2, True)
           [Tick completed_reply 5, Callback completed_webhook, Tick completed_reply 6])))) =
     [''LOAN-6''] \<and>
   snd (run poll1 (ledger2, True) [Tick completed_reply 5]) = True"
proof -
  let ?s1 = "settled ledger2 poll1"
  have u0: "users ledger2 ''254712345678'' =
      Some \<lparr>phone = ''254712345678'', balance = 0, has_paid_fee = False\<rparr>"
    by (simp add: ledger2_def ledger1_def)
  have la: "loanAmount (loan_amount poll1) = 20000" by (simp add: loanAmount_def poll1_def)
  have fp: "formattedPhone poll1 = ''254712345678''" by (simp add: poll1_def)
  have u1: "users ?s1 ''254712345678'' =
      Some \<lparr>phone = ''254712345678'', balance = 20000, has_paid_fee = True\<rparr>"
    using users_settled [of ledger2 poll1, unfolded fp, OF u0] by (simp add: la fits_decimal_def)
  have r1: "references ?s1 = {''ORDER-1'', ''LOAN-5''}"
    by (simp add: references_ledger2)
  have t2: "poll_tick ?s1 poll1 completed_reply 6 =
      (settled ?s1 poll1\<lparr>transactions := transactions (settled ?s1 poll1) @ [disbursement poll1 6]\<rparr>,
       False)"
    using settle_block_result [OF poll_status_completed _ u1 [folded fp], of 6]
    by (simp add: references_ledger2 small_numerals la poll1_facts(3) fits_decimal_def)
  have u2: "users (settled ?s1 poll1) ''254712345678'' =
      Some \<lparr>phone = ''254712345678'', balance = 40000, has_paid_fee = True\<rparr>"
    using users_settled [of ?s1 poll1, unfolded fp, OF u1] by (simp add: la fits_decimal_def)
  have tr: "transactions (settled ?s1 poll1) =
     [\<lparr>reference = ''ORDER-1'', user_phone = ''254712345678'', type = ''service_fee'',
          amount = Some 200, status = ''completed'',
          description = ''Service fee payment for loan of KES 20000'',
          metadata = JObj [(''transaction_id'', JStr ''TX1''), (''loan_amount'', JNum 20000)]\<rparr>,
      other_loan]"
    by (simp add: updateTransaction_def ledger2_def ledger1_def poll1_def other_loan_def)
  have run: "run poll1 (ledger2, True)
        [Tick completed_reply 5, Callback completed_webhook, Tick completed_reply 6] =
      (settled ?s1 poll1\<lparr>transactions := transactions (settled ?s1 poll1) @ [disbursement poll1 6]\<rparr>,
       False)"
    by (simp add: run_def tick_dup post_callback_def t2)
  have a: "map_option balance (users ledger2 ''254712345678'') = Some 0" by (simp add: u0)
  have b: "''LOAN-'' @ string_of_nat 5 \<in> references ledger2"
    by (simp add: references_ledger2 small_numerals)
  have c: "map_option balance
     (users (fst (run poll1 (ledger2, True)
        [Tick completed_reply 5, Callback completed_webhook, Tick completed_reply 6]))
      ''254712345678'') = Some 40000"
    unfolding run by (simp add: u2)
  have d: "map reference
     (filter (\<lambda>t. type t = ''loan_disbursement'' \<and>
                  metadata t = JObj [(''related_payment'', JStr ''ORDER-1'')])
        (transactions (fst (run poll1 (ledger2, True)
           [Tick completed_reply 5, Callback completed_webhook, Tick completed_reply 6])))) =
     [''LOAN-6'']"
    unfolding run
    by (simp add: tr del: transactions_settled)
      (simp add: other_loan_def disbursement_def poll1_def small_numerals)
  have e: "snd (run poll1 (ledger2, True) [Tick completed_reply 5]) = True"
    by (simp add: run_def tick_dup)
  from a la b c d e show ?thesis by blast
qed

section \<open>The outcome paths of \<open>POST /pay\<close>\<close>

lemma digit_char_inj: "d < 10 \<Longrightarrow> e < 10 \<Longrightarrow> digit_char d = digit_char e \<Longrightarrow> d = e"
proof -
  have "distinct ''0123456789''" by simp
  then show "d < 10 \<Longrightarrow> e < 10 \<Longrightarrow> digit_char d = digit_char e \<Longrightarrow> d = e"
    unfolding digit_char_def by (subst (asm) nth_eq_iff_index_eq) simp_all
qed

lemma string_of_nat_nonempty: "string_of_nat n \<noteq> []"
  by (subst string_of_nat.simps) simp

lemma string_of_nat_inj: "string_of_nat m = string_of_nat n \<Longrightarrow> m = n"
proof (induction m arbitrary: n rule: less_induct)
  case (less m)
  show ?case
  proof (cases "m < 10")
    case True
    show ?thesis
    proof (cases "n < 10")
      case n: True
      from less.prems True n have "digit_char m = digit_char n"
        by (simp add: string_of_nat.simps [of m] string_of_nat.simps [of n])
      with True n show ?thesis by (rule digit_char_inj)
    next
      case n: False
      from less.prems True n
      have "[digit_char m] = string_of_nat (n div 10) @ [digit_char (n mod 10)]"
        by (simp add: string_of_nat.simps [of m] string_of_nat.simps [of n])
      then have "string_of_nat (n div 10) = []" by simp
      with string_of_nat_nonempty show ?thesis by blast
    qed
  next
    case False
    show ?thesis
    proof (cases "n < 10")
      case n: True
      from less.prems False n
      have "string_of_nat (m div 10) @ [digit_char (m mod 10)] = [digit_char n]"
        by (simp add: string_of_nat.simps [of m] string_of_nat.simps [of n])
      then have "string_of_nat (m div 10) = []" by simp
      with string_of_nat_nonempty show ?thesis by blast
    next
      case n: False
      from less.prems False n
      have "string_of_nat (m div 10) @ [digit_char (m mod 10)] =
            string_of_nat (n div 10) @ [digit_char (n mod 10)]"
        by (simp add: string_of_nat.simps [of m] string_of_nat.simps [of n])
      then have a: "string_of_nat (m div 10) = string_of_nat (n div 10)"
        and b: "digit_char (m mod 10) = digit_char (n mod 10)"
        by simp_all
      from False have "m div 10 < m" by simp
      from less.IH [OF this a] have c: "m div 10 = n div 10" .
      have "m mod 10 = n mod 10" using b by (intro digit_char_inj) simp_all
      with c show ?thesis by (metis div_mult_mod_eq)
    qed
  qed
qed

lemma createTransaction_Inr_eq:
  "createTransaction s d = Inr s' \<Longrightarrow> s' = s\<lparr>transactions := transactions s @ [d]\<rparr>"
  by (auto simp: createTransaction_def split: option.splits if_splits)

lemma createTransaction_Inr_fresh:
  "createTransaction s d = Inr s' \<Longrightarrow> reference d \<notin> references s"
  by (auto simp: createTransaction_def split: option.splits if_splits)

lemma createTransaction_Inr_refs:
  "createTransaction s d = Inr s' \<Longrightarrow> references s' = insert (reference d) (references s)"
  by (auto simp: createTransaction_def references_def split: option.splits if_splits)

lemma returned_reference_simps:
  "returned_reference None = []"
  "returned_reference (Some (failure c msg)) = []"
  "returned_reference (Some (c, JObj [(''success'', b), (''error'', e), (''reference'', JStr ref)])) = [ref]"
  "returned_reference (Some (c, JObj [(''success'', b), (''message'', m), (''reference'', JStr ref)])) = [ref]"
  "returned_reference (Some (c, JObj [(''success'', b), (''error'', e)])) = []"
  by (simp_all add: returned_reference_def failure_def oprop_def)

text \<open>The outcome paths of \<open>post_pay\<close>, one lemma each.\<close>

lemma post_pay_invalid:
  "formatPhone ph = None \<Longrightarrow>
     post_pay s ph amt la now gw now' = (s, Some (failure 400 ''Invalid phone format''), None)"
  "formatPhone ph = Some fp \<Longrightarrow> missing_or_below amt 1 \<Longrightarrow>
     post_pay s ph amt la now gw now' = (s, Some (failure 400 ''Amount must be >= 1''), None)"
  by (simp_all add: post_pay_def)

lemma post_pay_success:
  assumes "formatPhone ph = Some fp" "\<not> missing_or_below amt 1"
    and "truthy data" "truthy (oprop data ''success'')"
    and "get_prop (oprop data ''data'') ''transaction_reference'' = Some tr"
    and "createTransaction (snd (getOrCreateUser s fp))
           \<lparr>reference = ''ORDER-'' @ string_of_nat now, user_phone = fp,
            type = ''service_fee'', amount = amt, status = ''pending'',
            description = ''Service fee payment for loan of KES '' @ js_String (num la),
            metadata = JObj [(''transaction_id'', js_or tr JNull),
              (''loan_amount'', js_or (num la) (JStr ''50000''))]\<rparr> = Inr s2"
  shows "post_pay s ph amt la now (Inr data) now' =
     (s2,
      Some (200, JObj [(''success'', JBool True),
         (''message'', JStr ''STK push sent, check your phone''),
         (''reference'', JStr (''ORDER-'' @ string_of_nat now))]),
      if truthy (js_or tr JNull) then
        Some \<lparr>poll_reference = ''ORDER-'' @ string_of_nat now, formattedPhone = fp,
              loan_amount = la, transaction_reference = js_or tr JNull\<rparr>
      else None)"
  using assms by (simp add: post_pay_def Let_def)

lemma post_pay_failed:
  assumes "formatPhone ph = Some fp" "\<not> missing_or_below amt 1"
    and "\<not> (truthy data \<and> truthy (oprop data ''success''))"
    and "createTransaction (snd (getOrCreateUser s fp))
           \<lparr>reference = ''ORDER-'' @ string_of_nat now, user_phone = fp,
            type = ''service_fee'', amount = amt, status = ''failed'',
            description = ''STK push failed to send'',
            metadata = JObj [(''loan_amount'', js_or (num la) (JStr ''50000''))]\<rparr> = Inr s2"
  shows "post_pay s ph amt la now (Inr data) now' =
     (s2,
      Some (400, JObj [(''success'', JBool False),
         (''error'', js_or (oprop data ''message'')
            (JStr ''STK push failed to send. Try again later.''))]),
      None)"
proof -
  from assms(3) have "\<not> truthy data \<or> \<not> truthy (oprop data ''success'')" by simp
  then show ?thesis
    using assms(1,2,4) by (elim disjE) (simp_all add: post_pay_def Let_def)
qed

lemma post_pay_catch:
  assumes "formatPhone ph = Some fp" "\<not> missing_or_below amt 1"
    and "gw = Inl err \<or>
      (\<exists>data. gw = Inr data \<and> truthy data \<and> truthy (oprop data ''success'') \<and>
         get_prop (oprop data ''data'') ''transaction_reference'' = None \<and> err = type_error) \<or>
      (\<exists>data tr e. gw = Inr data \<and> truthy data \<and> truthy (oprop data ''success'') \<and>
         get_prop (oprop data ''data'') ''transaction_reference'' = Some tr \<and>
         createTransaction (snd (getOrCreateUser s fp))
           \<lparr>reference = ''ORDER-'' @ string_of_nat now, user_phone = fp,
            type = ''service_fee'', amount = amt, status = ''pending'',
            description = ''Service fee payment for loan of KES '' @ js_String (num la),
            metadata = JObj [(''transaction_id'', js_or tr JNull),
              (''loan_amount'', js_or (num la) (JStr ''50000''))]\<rparr> = Inl e \<and>
         err = db_thrown e) \<or>
      (\<exists>data e. gw = Inr data \<and> \<not> (truthy data \<and> truthy (oprop data ''success'')) \<and>
         createTransaction (snd (getOrCreateUser s fp))
           \<lparr>reference = ''ORDER-'' @ string_of_nat now, user_phone = fp,
            type = ''service_fee'', amount = amt, status = ''failed'',
            description = ''STK push failed to send'',
            metadata = JObj [(''loan_amount'', js_or (num la) (JStr ''50000''))]\<rparr> = Inl e \<and>
         err = db_thrown e)"
  shows "post_pay s ph amt la now gw now' =
     (fst (pay_catch (snd (getOrCreateUser s fp)) ph amt la err now'),
      snd (pay_catch (snd (getOrCreateUser s fp)) ph amt la err now'), None)"
  using assms(3)
proof (elim disjE exE conjE)
  assume "gw = Inl err"
  with assms(1,2) show ?thesis by (simp add: post_pay_def Let_def split: prod.splits)
next
  fix data
  assume "gw = Inr data" "truthy data" "truthy (oprop data ''success'')"
    "get_prop (oprop data ''data'') ''transaction_reference'' = None" "err = type_error"
  with assms(1,2) show ?thesis by (simp add: post_pay_def Let_def split: prod.splits)
next
  fix data tr e
  assume "gw = Inr data" "truthy data" "truthy (oprop data ''success'')"
    "get_prop (oprop data ''data'') ''transaction_reference'' = Some tr"
    "createTransaction (snd (getOrCreateUser s fp))
           \<lparr>reference = ''ORDER-'' @ string_of_nat now, user_phone = fp,
            type = ''service_fee'', amount = amt, status = ''pending'',
            description = ''Service fee payment for loan of KES '' @ js_String (num la),
            metadata = JObj [(''transaction_id'', js_or tr JNull),
              (''loan_amount'', js_or (num la) (JStr ''50000''))]\<rparr> = Inl e"
    "err = db_thrown e"
  with assms(1,2) show ?thesis by (simp add: post_pay_def Let_def split: prod.splits)
next
  fix data e
  assume g: "gw = Inr data" and n: "\<not> (truthy data \<and> truthy (oprop data ''success''))"
    and c: "createTransaction (snd (getOrCreateUser s fp))
           \<lparr>reference = ''ORDER-'' @ string_of_nat now, user_phone = fp,
            type = ''service_fee'', amount = amt, status = ''failed'',
            description = ''STK push failed to send'',
            metadata = JObj [(''loan_amount'', js_or (num la) (JStr ''50000''))]\<rparr> = Inl e"
    and e: "err = db_thrown e"
  from n have "\<not> truthy data \<or> \<not> truthy (oprop data ''success'')" by simp
  then show ?thesis
    using assms(1,2) g c e
    by (elim disjE) (simp_all add: post_pay_def Let_def split: prod.splits)
qed

lemma pay_catch_refs:
  assumes "formatPhone ph = Some fp"
  shows "references s \<subseteq> references (fst (pay_catch s ph amt la err now)) \<and>
     set (returned_reference (snd (pay_catch s ph amt la err now))) \<subseteq>
       references (fst (pay_catch s ph amt la err now)) - references s"
proof (cases "createTransaction s
        \<lparr>reference = ''ORDER-'' @ string_of_nat now, user_phone = fp, type = ''service_fee'',
         amount = (if truthy (num amt) then amt else None), status = ''error'',
         description = ''System error occurred'',
         metadata = JObj [(''loan_amount'', js_or (num la) (JStr ''50000''))]\<rparr>")
  case (Inl e)
  with assms show ?thesis
    by (simp add: pay_catch_def Let_def returned_reference_simps)
next
  case (Inr s2)
  from createTransaction_Inr_refs [OF Inr] createTransaction_Inr_fresh [OF Inr]
  have "references s2 = insert (''ORDER-'' @ string_of_nat now) (references s)"
    and "''ORDER-'' @ string_of_nat now \<notin> references s"
    by simp_all
  with Inr assms show ?thesis
    by (simp add: pay_catch_def Let_def returned_reference_simps) blast
qed

lemma post_pay_cases [case_names catch success failed]:
  assumes "formatPhone ph = Some fp" "\<not> missing_or_below amt 1"
  obtains
    (catch) err where
      "post_pay s ph amt la now gw now' =
         (fst (pay_catch (snd (getOrCreateUser s fp)) ph amt la err now'), snd (pay_catch (snd (getOrCreateUser s fp)) ph amt la err now'), None)"
  | (success) data tr s2 where
      "gw = Inr data" "truthy data" "truthy (oprop data ''success'')"
      "get_prop (oprop data ''data'') ''transaction_reference'' = Some tr"
      "createTransaction (snd (getOrCreateUser s fp))
           \<lparr>reference = ''ORDER-'' @ string_of_nat now, user_phone = fp,
            type = ''service_fee'', amount = amt, status = ''pending'',
            description = ''Service fee payment for loan of KES '' @ js_String (num la),
            metadata = JObj [(''transaction_id'', js_or tr JNull),
              (''loan_amount'', js_or (num la) (JStr ''50000''))]\<rparr> = Inr s2"
  | (failed) data s2 where
      "gw = Inr data" "\<not> (truthy data \<and> truthy (oprop data ''success''))"
      "createTransaction (snd (getOrCreateUser s fp))
           \<lparr>reference = ''ORDER-'' @ string_of_nat now, user_phone = fp,
            type = ''service_fee'', amount = amt, status = ''failed'',
            description = ''STK push failed to send'',
            metadata = JObj [(''loan_amount'', js_or (num la) (JStr ''50000''))]\<rparr> = Inr s2"
proof (cases gw)
  case (Inl err)
  then show ?thesis by (intro catch [of err] post_pay_catch [OF assms]) simp
next
  case (Inr data)
  show ?thesis
  proof (cases "truthy data \<and> truthy (oprop data ''success'')")
    case True
    show ?thesis
    proof (cases "get_prop (oprop data ''data'') ''transaction_reference''")
      case None
      with Inr True show ?thesis
        by (intro catch [of type_error] post_pay_catch [OF assms]) simp
    next
      case (Some tr)
      show ?thesis
      proof (cases "createTransaction (snd (getOrCreateUser s fp))
           \<lparr>reference = ''ORDER-'' @ string_of_nat now, user_phone = fp,
            type = ''service_fee'', amount = amt, status = ''pending'',
            description = ''Service fee payment for loan of KES '' @ js_String (num la),
            metadata = JObj [(''transaction_id'', js_or tr JNull),
              (''loan_amount'', js_or (num la) (JStr ''50000''))]\<rparr>")
        case (Inl e)
        with Inr True Some show ?thesis
          by (intro catch [of "db_thrown e"] post_pay_catch [OF assms]) auto
      next
        case c: (Inr s2)
        with Inr True Some show ?thesis by (intro success [of data tr s2]) simp_all
      qed
    qed
  next
    case False
    show ?thesis
    proof (cases "createTransaction (snd (getOrCreateUser s fp))
           \<lparr>reference = ''ORDER-'' @ string_of_nat now, user_phone = fp,
            type = ''service_fee'', amount = amt, status = ''failed'',
            description = ''STK push failed to send'',
            metadata = JObj [(''loan_amount'', js_or (num la) (JStr ''50000''))]\<rparr>")
      case (Inl e)
      with Inr False show ?thesis
        by (intro catch [of "db_thrown e"] post_pay_catch [OF assms]) auto
    next
      case c: (Inr s2)
      with Inr False show ?thesis by (intro failed [of data s2]) simp_all
    qed
  qed
qed

lemma post_pay_refs:
  "references s \<subseteq> references (fst (post_pay s ph amt la now gw now')) \<and>
   set (returned_reference (fst (snd (post_pay s ph amt la now gw now')))) \<subseteq>
     references (fst (post_pay s ph amt la now gw now')) - references s"
proof (cases "formatPhone ph")
  case None
  then show ?thesis by (simp add: post_pay_invalid returned_reference_simps)
next
  case (Some fp)
  show ?thesis
  proof (cases "missing_or_below amt 1")
    case True
    with Some show ?thesis by (simp add: post_pay_invalid returned_reference_simps)
  next
    case False
    from Some False show ?thesis
    proof (cases rule: post_pay_cases [where s = s and la = la and now = now and gw = gw and now' = now'])
      case (catch err)
      from pay_catch_refs [OF Some, of "snd (getOrCreateUser s fp)" amt la err now']
      show ?thesis unfolding catch by simp
    next
      case (success data tr s2)
      from createTransaction_Inr_refs [OF success(5)] createTransaction_Inr_fresh [OF success(5)]
      have "references s2 = insert (''ORDER-'' @ string_of_nat now) (references s)"
        and "''ORDER-'' @ string_of_nat now \<notin> references s"
        by simp_all
      then show ?thesis
        unfolding success(1) post_pay_success [OF Some False success(2-5)]
        by (simp add: returned_reference_simps) blast
    next
      case (failed data s2)
      from createTransaction_Inr_refs [OF failed(3)]
      have "references s2 = insert (''ORDER-'' @ string_of_nat now) (references s)"
        by simp
      then show ?thesis
        unfolding failed(1) post_pay_failed [OF Some False failed(2,3)]
        by (simp add: returned_reference_simps) blast
    qed
  qed
qed

lemma pay_catch_code: "snd (pay_catch s ph amt la err now) \<noteq> Some (200, b)"
  by (simp add: pay_catch_def Let_def split: option.splits sum.splits)

lemma find_transaction_append:
  "reference d \<notin> references s \<Longrightarrow>
   find_transaction (s\<lparr>transactions := transactions s @ [d]\<rparr>) (reference d) = Some d"
proof -
  assume "reference d \<notin> references s"
  then have "\<not> (\<exists>x. x \<in> set (transactions s) \<and> reference x = reference d)"
    unfolding references_def by (metis image_eqI set_map)
  then have "find (\<lambda>t. reference t = reference d) (transactions s) = None"
    by (simp add: find_None_iff)
  then show ?thesis by (simp add: find_transaction_def find_append_left)
qed

lemma post_pay_200:
  assumes "fst (snd (post_pay s ph amt la now gw now')) = Some (200, b)"
  shows "returned_reference (Some (200, b)) = [''ORDER-'' @ string_of_nat now] \<and>
     get_receipt (fst (post_pay s ph amt la now gw now')) (''ORDER-'' @ string_of_nat now) =
       (200, JObj [(''success'', JBool True),
          (''receipt'', JObj [(''reference'', JStr (''ORDER-'' @ string_of_nat now)),
             (''amount'', num amt), (''status'', JStr ''pending''),
             (''phone'', JStr (the (formatPhone ph))),
             (''description'',
                JStr (''Service fee payment for loan of KES '' @ js_String (num la))),
             (''metadata'', JObj [(''transaction_id'',
                 js_or (oprop (oprop (case gw of Inr data \<Rightarrow> data | Inl e \<Rightarrow> JUndefined) ''data'')
                   ''transaction_reference'') JNull),
               (''loan_amount'', js_or (num la) (JStr ''50000''))])])])"
proof (cases "formatPhone ph")
  case None
  with assms show ?thesis by (simp add: post_pay_invalid failure_def)
next
  case (Some fp)
  show ?thesis
  proof (cases "missing_or_below amt 1")
    case True
    with Some assms show ?thesis by (simp add: post_pay_invalid failure_def)
  next
    case False
    from Some False show ?thesis
    proof (cases rule: post_pay_cases [where s = s and la = la and now = now and gw = gw and now' = now'])
      case (catch err)
      with assms pay_catch_code show ?thesis by simp
    next
      case (success data tr s2)
      note e = post_pay_success [OF Some False success(2-5)]
      from assms have b: "b = JObj [(''success'', JBool True),
         (''message'', JStr ''STK push sent, check your phone''),
         (''reference'', JStr (''ORDER-'' @ string_of_nat now))]"
        unfolding success(1) e by simp
      have tr: "oprop (oprop data ''data'') ''transaction_reference'' = tr"
        using success(4) by (simp add: oprop_def)
      from createTransaction_Inr_fresh [OF success(5)] createTransaction_Inr_eq [OF success(5)]
        find_transaction_append [of "\<lparr>reference = ''ORDER-'' @ string_of_nat now, user_phone = fp,
            type = ''service_fee'', amount = amt, status = ''pending'',
            description = ''Service fee payment for loan of KES '' @ js_String (num la),
            metadata = JObj [(''transaction_id'', js_or tr JNull),
              (''loan_amount'', js_or (num la) (JStr ''50000''))]\<rparr>" "snd (getOrCreateUser s fp)"]
      have "find_transaction s2 (''ORDER-'' @ string_of_nat now) = Some \<lparr>reference = ''ORDER-'' @ string_of_nat now, user_phone = fp,
            type = ''service_fee'', amount = amt, status = ''pending'',
            description = ''Service fee payment for loan of KES '' @ js_String (num la),
            metadata = JObj [(''transaction_id'', js_or tr JNull),
              (''loan_amount'', js_or (num la) (JStr ''50000''))]\<rparr>"
        by simp
      then show ?thesis
        unfolding success(1) e b
        by (simp add: returned_reference_simps get_receipt_def Some tr)
    next
      case (failed data s2)
      with assms show ?thesis
        by (simp add: post_pay_failed [OF Some False failed(2,3)])
    qed
  qed
qed

lemma post_withdraw_refs: "references s \<subseteq> references (fst (post_withdraw s ph amt now))"
proof (cases "formatPhone ph")
  case None
  then show ?thesis by (simp add: post_withdraw_def)
next
  case (Some fp)
  show ?thesis
  proof (cases "missing_or_below amt 100")
    case True
    with Some show ?thesis by (simp add: post_withdraw_def)
  next
    case False
    then obtain a where a: "amt = Some a" by (cases amt) (auto simp: missing_or_below_def)
    obtain u s1 where g: "getOrCreateUser s fp = (u, s1)" by (cases "getOrCreateUser s fp")
    then have r1: "references s1 = references s"
      using references_users(2) [of s fp] by simp
    let ?d = "\<lparr>reference = ''WD-'' @ string_of_nat now, user_phone = fp, type = ''withdrawal'',
               amount = Some a, status = ''processing'',
               description = ''Withdrawal of KES '' @ js_String (JNum a),
               metadata = JObj [(''withdrawal_to'', JStr fp)]\<rparr>"
    show ?thesis
    proof (cases "createTransaction s1 ?d")
      case (Inl e)
      with Some False a g r1 show ?thesis by (simp add: post_withdraw_def Let_def)
    next
      case (Inr s2)
      from createTransaction_Inr_refs [OF Inr] r1
      have r2: "references s \<subseteq> references s2" by auto
      show ?thesis
      proof (cases "updateUserBalance s2 fp a False")
        case e: (Inl e)
        with Some False a g r1 r2 Inr show ?thesis by (simp add: post_withdraw_def Let_def)
      next
        case u: (Inr s3)
        from updateUserBalance_Inr [OF u] r2 have "references s \<subseteq> references s3" by simp
        with Some False a g r1 Inr u show ?thesis by (simp add: post_withdraw_def Let_def)
      qed
    qed
  qed
qed

lemma references_append:
  "references (s\<lparr>transactions := transactions s @ [d]\<rparr>) = insert (reference d) (references s)"
  by (simp add: references_def)

lemma poll_tick_refs: "references s \<subseteq> references (fst (poll_tick s p reply now))"
proof (cases "poll_status reply")
  case None
  then show ?thesis by (simp add: poll_tick_def)
next
  case (Some a)
  obtain payData st where a: "a = (payData, st)" by (cases a)
  show ?thesis
  proof (cases "st = ''completed'' \<or> st = ''processing''")
    case True
    let ?s2 = "markUserFeePaid (updateTransaction s (poll_reference p) ''completed'')
                 (formattedPhone p)"
    show ?thesis
    proof (cases "updateUserBalance ?s2 (formattedPhone p) (loanAmount (loan_amount p)) True")
      case (Inl e)
      with Some a True show ?thesis by (auto simp: poll_tick_def Let_def)
    next
      case (Inr s3)
      from updateUserBalance_Inr [OF Inr] have r3: "references s3 = references s" by simp
      show ?thesis
      proof (cases "createTransaction s3 (disbursement p now)")
        case e: (Inl e)
        with Some a True Inr r3 show ?thesis
          by (auto simp: poll_tick_def Let_def disbursement_def)
      next
        case c: (Inr s4)
        from createTransaction_Inr_refs [OF c] r3 have "references s \<subseteq> references s4" by auto
        with Some a True Inr c show ?thesis
          by (auto simp: poll_tick_def Let_def disbursement_def)
      qed
    qed
  next
    case False
    with Some a show ?thesis by (simp add: poll_tick_def)
  qed
qed

lemma serve_Pay:
  "serve s (Pay ph amt la now gw now') =
     (fst (post_pay s ph amt la now gw now'), fst (snd (post_pay s ph amt la now gw now')))"
  by (simp split: prod.splits)

lemma serve_refs: "references s \<subseteq> references (fst (serve s r))"
proof (cases r)
  case (Pay ph amt la now gw now')
  with post_pay_refs [of s ph amt la now gw now'] show ?thesis
    by (simp only: serve_Pay fst_conv)
next
  case (Withdraw ph amt now)
  with post_withdraw_refs [of s ph amt now] show ?thesis by (auto split: prod.splits)
next
  case (Balance ph)
  then show ?thesis
    by (simp add: get_balance_def split: prod.splits option.splits)
      (metis references_users(2) snd_conv subset_refl)
next
  case (Transactions ph)
  then show ?thesis by (simp add: get_transactions_def split: option.splits)
next
  case (Receipt ref)
  then show ?thesis by simp
next
  case (TimerTick p reply now)
  with poll_tick_refs [of s p reply now] show ?thesis by simp
next
  case (Webhook body)
  then show ?thesis by (simp add: post_callback_def)
qed

lemma distinct_returned_reference: "distinct (returned_reference r)"
  by (simp add: returned_reference_def split: option.splits prod.splits json.splits)

lemma pay_references_fresh:
  "distinct (pay_references s rs) \<and> set (pay_references s rs) \<inter> references s = {}"
proof (induction rs arbitrary: s)
  case Nil
  show ?case by simp
next
  case (Cons r rs)
  let ?s' = "fst (serve s r)"
  let ?x = "case r of Pay ph amt la now gw now' \<Rightarrow> returned_reference (snd (serve s r)) | _ \<Rightarrow> []"
  have eq: "pay_references s (r # rs) = ?x @ pay_references ?s' rs"
    by (simp split: prod.splits request.splits)
  have x: "distinct ?x \<and> set ?x \<subseteq> references ?s' - references s"
  proof (cases r)
    case (Pay ph amt la now gw now')
    with post_pay_refs [of s ph amt la now gw now'] show ?thesis
      by (simp add: distinct_returned_reference serve_Pay del: serve.simps)
  qed simp_all
  from Cons.IH [of ?s'] have ih: "distinct (pay_references ?s' rs)"
    "set (pay_references ?s' rs) \<inter> references ?s' = {}"
    by simp_all
  from serve_refs [of s r] x ih show ?case unfolding eq by auto
qed

lemma post_pay_legacy_200:
  assumes "fst (snd (post_pay_legacy rs ph amt la now ts gw now' ts')) = (200, b)"
  shows "\<exists>receiptData.
     fst (post_pay_legacy rs ph amt la now ts gw now' ts') =
       AList.update (''ORDER-'' @ string_of_nat now) receiptData rs \<and>
     b = JObj [(''success'', JBool True), (''message'', JStr ''STK push sent, check your phone''),
               (''reference'', JStr (''ORDER-'' @ string_of_nat now)),
               (''receipt'', JObj receiptData)] \<and>
     field receiptData ''status'' = JStr ''pending''"
proof (cases "formatPhone ph")
  case None
  with assms show ?thesis by (simp add: post_pay_legacy_def failure_def)
next
  case (Some fp)
  show ?thesis
  proof (cases "missing_or_below amt 1")
    case True
    with Some assms show ?thesis by (simp add: post_pay_legacy_def failure_def)
  next
    case False
    show ?thesis
    proof (cases gw)
      case (Inl err)
      with Some False assms show ?thesis
        by (simp add: post_pay_legacy_def pay_catch_legacy_def Let_def)
    next
      case (Inr data)
      show ?thesis
      proof (cases "truthy data \<and> truthy (oprop data ''success'')")
        case True
        show ?thesis
        proof (cases "get_prop (oprop data ''data'') ''transaction_reference''")
          case None
          with Some False Inr True assms show ?thesis
            by (simp add: post_pay_legacy_def pay_catch_legacy_def Let_def)
        next
          case tr: (Some tr)
          let ?rd = "[(''reference'', JStr (''ORDER-'' @ string_of_nat now)),
                      (''transaction_id'', js_or tr JNull),
                      (''transaction_code'', JNull), (''amount'', num amt),
                      (''loan_amount'', js_or (num la) (JStr ''50000'')),
                      (''phone'', JStr fp), (''customer_name'', JStr ''N/A''),
                      (''status'', JStr ''pending''),
                      (''status_note'', JStr (''STK push sent to '' @ fp @
                         ''. Enter your M-Pesa PIN to complete.'')),
                      (''timestamp'', JNum (int ts))]"
          from Some False Inr True tr
          have e: "fst (post_pay_legacy rs ph amt la now ts gw now' ts') =
                AList.update (''ORDER-'' @ string_of_nat now) ?rd rs"
            and r: "fst (snd (post_pay_legacy rs ph amt la now ts gw now' ts')) =
                (200, JObj [(''success'', JBool True),
                   (''message'', JStr ''STK push sent, check your phone''),
                   (''reference'', JStr (''ORDER-'' @ string_of_nat now)),
                   (''receipt'', JObj ?rd)])"
            by (simp_all add: post_pay_legacy_def Let_def)
          have f: "field ?rd ''status'' = JStr ''pending''" by (simp add: field_def)
          from assms r have "b = JObj [(''success'', JBool True),
                   (''message'', JStr ''STK push sent, check your phone''),
                   (''reference'', JStr (''ORDER-'' @ string_of_nat now)),
                   (''receipt'', JObj ?rd)]"
            by simp
          with e f show ?thesis by blast
        qed
      next
        case no: False
        then have "\<not> truthy data \<or> \<not> truthy (oprop data ''success'')" by simp
        then show ?thesis
          using Some False Inr assms
          by (elim disjE) (simp_all add: post_pay_legacy_def Let_def)
      qed
    qed
  qed
qed

lemma get_receipt_legacy_update:
  "get_receipt_legacy (AList.update ref r rs) ref =
     (200, JObj [(''success'', JBool True), (''receipt'', JObj r)])"
  by (simp add: get_receipt_legacy_def update_conv')

lemma order_reference_inj:
  "''ORDER-'' @ string_of_nat m = ''ORDER-'' @ string_of_nat n \<Longrightarrow> m = n"
  using string_of_nat_inj by simp

lemma oprop_JObj: "oprop (JObj fs) k = (case map_of fs k of None \<Rightarrow> JUndefined | Some v \<Rightarrow> v)"
  by (simp add: oprop_def)

lemma post_pay_legacy_success:
  assumes "formatPhone ph = Some fp" "\<not> missing_or_below amt 1"
    and "truthy data" "truthy (oprop data ''success'')"
    and "get_prop (oprop data ''data'') ''transaction_reference'' = Some tr"
  shows "post_pay_legacy rs ph amt la now ts (Inr data) now' ts' =
     (AList.update (''ORDER-'' @ string_of_nat now)
        [(''reference'', JStr (''ORDER-'' @ string_of_nat now)),
         (''transaction_id'', js_or tr JNull),
         (''transaction_code'', JNull), (''amount'', num amt),
         (''loan_amount'', js_or (num la) (JStr ''50000'')),
         (''phone'', JStr fp), (''customer_name'', JStr ''N/A''),
         (''status'', JStr ''pending''),
         (''status_note'', JStr (''STK push sent to '' @ fp @
            ''. Enter your M-Pesa PIN to complete.'')),
         (''timestamp'', JNum (int ts))] rs,
      (200, JObj [(''success'', JBool True),
         (''message'', JStr ''STK push sent, check your phone''),
         (''reference'', JStr (''ORDER-'' @ string_of_nat now)),
         (''receipt'', JObj
            [(''reference'', JStr (''ORDER-'' @ string_of_nat now)),
             (''transaction_id'', js_or tr JNull),
             (''transaction_code'', JNull), (''amount'', num amt),
             (''loan_amount'', js_or (num la) (JStr ''50000'')),
             (''phone'', JStr fp), (''customer_name'', JStr ''N/A''),
             (''status'', JStr ''pending''),
             (''status_note'', JStr (''STK push sent to '' @ fp @
                ''. Enter your M-Pesa PIN to complete.'')),
             (''timestamp'', JNum (int ts))])]),
      if truthy (js_or tr JNull) then
        Some \<lparr>poll_reference = ''ORDER-'' @ string_of_nat now, formattedPhone = fp,
              loan_amount = la, transaction_reference = js_or tr JNull\<rparr>
      else None)"
  using assms by (simp add: post_pay_legacy_def Let_def)

lemma post_pay_legacy_failed:
  assumes "formatPhone ph = Some fp" "\<not> missing_or_below amt 1"
    and "\<not> (truthy data \<and> truthy (oprop data ''success''))"
  shows "post_pay_legacy rs ph amt la now ts (Inr data) now' ts' =
     (AList.update (''ORDER-'' @ string_of_nat now)
        [(''reference'', JStr (''ORDER-'' @ string_of_nat now)),
         (''transaction_id'',
            js_or (oprop (oprop data ''data'') ''transaction_reference'') JNull),
         (''amount'', num amt),
         (''loan_amount'', js_or (num la) (JStr ''50000'')),
         (''phone'', JStr fp), (''status'', JStr ''stk_failed''),
         (''status_note'', js_or (oprop data ''message'')
            (JStr ''STK push failed to send. Try again later.'')),
         (''timestamp'', JNum (int ts))] rs,
      (400, JObj [(''success'', JBool False),
         (''error'', js_or (oprop data ''message'')
            (JStr ''STK push failed to send. Try again later.''))]),
      None)"
proof -
  from assms(3) have "\<not> truthy data \<or> \<not> truthy (oprop data ''success'')" by simp
  then show ?thesis
    using assms(1,2) by (elim disjE) (simp_all add: post_pay_legacy_def Let_def field_def)
qed

lemma phone_example2: "formatPhone (JStr ''0799999999'') = Some ''254799999999''"
  by (simp add: formatPhone_def strip_non_digits_def is_digit_def startsWith_def)

lemma ok_reply_facts:
  "truthy (JObj [(''success'', JBool True),
                 (''data'', JObj [(''transaction_reference'', JStr ''TX1'')])])"
  "truthy (oprop (JObj [(''success'', JBool True),
                 (''data'', JObj [(''transaction_reference'', JStr ''TX1'')])]) ''success'')"
  "get_prop (oprop (JObj [(''success'', JBool True),
                 (''data'', JObj [(''transaction_reference'', JStr ''TX1'')])]) ''data'')
     ''transaction_reference'' = Some (JStr ''TX1'')"
  by (simp_all add: oprop_def)

lemma declined_reply_facts:
  "\<not> (truthy (JObj [(''success'', JBool False), (''message'', JStr ''Insufficient funds'')]) \<and>
      truthy (oprop (JObj [(''success'', JBool False), (''message'', JStr ''Insufficient funds'')])
                ''success''))"
  "js_or (oprop (JObj [(''success'', JBool False), (''message'', JStr ''Insufficient funds'')])
            ''message'') d = JStr ''Insufficient funds''"
  by (simp_all add: oprop_def js_or_def)

lemma amounts_present:
  "\<not> missing_or_below (Some 200) 1" "\<not> missing_or_below (Some 300) 1"
  by (simp_all add: missing_or_below_def)

lemma first_user:
  "snd (getOrCreateUser empty_ledger ''254712345678'') =
     \<lparr>users = [''254712345678'' \<mapsto> \<lparr>phone = ''254712345678'', balance = 0, has_paid_fee = False\<rparr>],
      transactions = []\<rparr>"
  by (simp add: getOrCreateUser_def empty_ledger_def Let_def)

lemma createTransaction_first:
  "amount d = Some a \<Longrightarrow> fits_decimal a \<Longrightarrow>
   createTransaction \<lparr>users = us, transactions = []\<rparr> d = Inr \<lparr>users = us, transactions = [d]\<rparr>"
  by (simp add: createTransaction_def references_def)

lemma fits_examples: "fits_decimal 200" "fits_decimal 300" "fits_decimal 20000"
  by (simp_all add: fits_decimal_def)

lemma loan_numeral: "string_of_nat 20000 = ''20000''"
  by (simp add: string_of_nat.simps digit_char_def)

section \<open>The reference in the response\<close>

text \<open>
  C4, at a failing input. A valid request whose initiation the gateway answers with
  \<open>{ success: false, message: "Insufficient funds" }\<close>: both variants store a failed
  record under \<open>ORDER-5\<close> and answer 400 with \<open>success\<close> and \<open>error\<close> only, so the
  caller never learns the reference. The same request answered by a timeout (the
  \<open>catch\<close> block) or by a success carries its reference.
\<close>

theorem pay_failure_omits_reference:
  "post_pay empty_ledger (JStr ''0712345678'') (Some 200) (Some 20000) 5 declined_reply 6 =
     (\<lparr>users = [''254712345678'' \<mapsto> \<lparr>phone = ''254712345678'', balance = 0, has_paid_fee = False\<rparr>],
       transactions =
         [\<lparr>reference = ''ORDER-5'', user_phone = ''254712345678'', type = ''service_fee'',
           amount = Some 200, status = ''failed'',
           description = ''STK push failed to send'',
           metadata = JObj [(''loan_amount'', JNum 20000)]\<rparr>]\<rparr>,
      Some (400, JObj [(''success'', JBool False), (''error'', JStr ''Insufficient funds'')]),
      None) \<and>
   returned_reference
     (fst (snd (post_pay empty_ledger (JStr ''0712345678'') (Some 200) (Some 20000) 5
                  declined_reply 6))) = [] \<and>
   fst (snd (post_pay_legacy [] (JStr ''0712345678'') (Some 200) (Some 20000) 5 5
               declined_reply 6 6)) =
     (400, JObj [(''success'', JBool False), (''error'', JStr ''Insufficient funds'')]) \<and>
   map fst (fst (post_pay_legacy [] (JStr ''0712345678'') (Some 200) (Some 20000) 5 5
                   declined_reply 6 6)) = [''ORDER-5''] \<and>
   returned_reference
     (fst (snd (post_pay empty_ledger (JStr ''0712345678'') (Some 200) (Some 20000) 5
                  timeout_error 6))) = [''ORDER-6''] \<and>
   returned_reference
     (fst (snd (post_pay empty_ledger (JStr ''0712345678'') (Some 200) (Some 20000) 5
                  ok_reply 6))) = [''ORDER-5'']"
proof -
  have a: "post_pay empty_ledger (JStr ''0712345678'') (Some 200) (Some 20000) 5 declined_reply 6 =
     (\<lparr>users = [''254712345678'' \<mapsto> \<lparr>phone = ''254712345678'', balance = 0, has_paid_fee = False\<rparr>],
       transactions =
         [\<lparr>reference = ''ORDER-5'', user_phone = ''254712345678'', type = ''service_fee'',
           amount = Some 200, status = ''failed'',
           description = ''STK push failed to send'',
           metadata = JObj [(''loan_amount'', JNum 20000)]\<rparr>]\<rparr>,
      Some (400, JObj [(''success'', JBool False), (''error'', JStr ''Insufficient funds'')]),
      None)"
    unfolding declined_reply_def
    by (subst post_pay_failed [OF phone_example amounts_present(1) declined_reply_facts(1)])
      (simp_all add: first_user createTransaction_first fits_examples js_or_def num_def small_numerals
        declined_reply_facts(2) oprop_JObj)
  have b: "post_pay_legacy [] (JStr ''0712345678'') (Some 200) (Some 20000) 5 5 declined_reply 6 6 =
     ([(''ORDER-5'',
        [(''reference'', JStr ''ORDER-5''), (''transaction_id'', JNull), (''amount'', JNum 200),
         (''loan_amount'', JNum 20000), (''phone'', JStr ''254712345678''),
         (''status'', JStr ''stk_failed''), (''status_note'', JStr ''Insufficient funds''),
         (''timestamp'', JNum 5)])],
      (400, JObj [(''success'', JBool False), (''error'', JStr ''Insufficient funds'')]),
      None)"
    unfolding declined_reply_def
    by (subst post_pay_legacy_failed [OF phone_example amounts_present(1) declined_reply_facts(1)])
      (simp add: js_or_def num_def small_numerals oprop_JObj oprop_def)
  have c: "post_pay empty_ledger (JStr ''0712345678'') (Some 200) (Some 20000) 5 timeout_error 6 =
     (fst (pay_catch (snd (getOrCreateUser empty_ledger ''254712345678'')) (JStr ''0712345678'')
             (Some 200) (Some 20000) (Thrown JUndefined ''timeout of 30000ms exceeded'') 6),
      snd (pay_catch (snd (getOrCreateUser empty_ledger ''254712345678'')) (JStr ''0712345678'')
             (Some 200) (Some 20000) (Thrown JUndefined ''timeout of 30000ms exceeded'') 6),
      None)"
    unfolding timeout_error_def
    by (rule post_pay_catch [OF phone_example amounts_present(1)]) simp
  have c': "returned_reference
     (snd (pay_catch (snd (getOrCreateUser empty_ledger ''254712345678'')) (JStr ''0712345678'')
             (Some 200) (Some 20000) (Thrown JUndefined ''timeout of 30000ms exceeded'') 6)) =
     [''ORDER-6'']"
    by (simp add: pay_catch_def phone_example first_user createTransaction_first fits_examples num_def
        Let_def returned_reference_simps small_numerals)
  have d: "returned_reference
     (fst (snd (post_pay empty_ledger (JStr ''0712345678'') (Some 200) (Some 20000) 5
                  ok_reply 6))) = [''ORDER-5'']"
    unfolding ok_reply_def
    by (subst post_pay_success [OF phone_example amounts_present(1) ok_reply_facts])
      (simp_all add: first_user createTransaction_first fits_examples js_or_def num_def small_numerals
        returned_reference_simps)
  show ?thesis
    unfolding a b c using c' d by (simp add: returned_reference_simps)
qed

section \<open>Unique references\<close>

text \<open>
  C6, as stated, fails in the legacy variant: two initiations that read the same clock
  both answer with \<open>ORDER-5\<close>, and the second receipt replaces the first.
\<close>

theorem legacy_reference_collision:
  "returned_reference (Some (fst (snd
      (post_pay_legacy [] (JStr ''0712345678'') (Some 200) (Some 20000) 5 5 ok_reply 6 6)))) =
     [''ORDER-5''] \<and>
   returned_reference (Some (fst (snd
      (post_pay_legacy
         (fst (post_pay_legacy [] (JStr ''0712345678'') (Some 200) (Some 20000) 5 5 ok_reply 6 6))
         (JStr ''0799999999'') (Some 300) None 5 5 ok_reply 6 6)))) =
     [''ORDER-5''] \<and>
   map (\<lambda>(ref, r). (ref, field r ''phone''))
     (fst (post_pay_legacy
         (fst (post_pay_legacy [] (JStr ''0712345678'') (Some 200) (Some 20000) 5 5 ok_reply 6 6))
         (JStr ''0799999999'') (Some 300) None 5 5 ok_reply 6 6)) =
     [(''ORDER-5'', JStr ''254799999999'')]"
proof -
  note a = post_pay_legacy_success [OF phone_example amounts_present(1) ok_reply_facts,
      of _ "Some 20000" 5 5 6 6, folded ok_reply_def]
  note b = post_pay_legacy_success [OF phone_example2 amounts_present(2) ok_reply_facts,
      of _ None 5 5 6 6, folded ok_reply_def]
  show ?thesis
    unfolding a b
    by (simp add: returned_reference_def oprop_JObj small_numerals field_def)
qed

text \<open>
  C6, amended. In the database variant the references that the responses to
  \<open>POST /pay\<close> carry are pairwise distinct over every run of the server, whatever else
  is served in between (a reference that is stored already makes the insert throw, and
  the request ends in the \<open>catch\<close> block with another reference or without a
  response). In both variants a response with status 200 carries the reference
  \<open>ORDER-\<close> followed by the clock reading, and \<open>GET /receipt/:reference\<close> right after
  it answers 200 with status \<open>pending\<close>. In the legacy variant nothing but the clock
  separates two initiations: different clock readings give different references.
\<close>

theorem pay_references_unique:
  "distinct (pay_references s reqs) \<and>
   (\<forall>b. fst (snd (post_pay s ph amt la now gw now')) = Some (200, b) \<longrightarrow>
      returned_reference (Some (200, b)) = [''ORDER-'' @ string_of_nat now] \<and>
      fst (get_receipt (fst (post_pay s ph amt la now gw now')) (''ORDER-'' @ string_of_nat now)) = 200 \<and>
      oprop (oprop (snd (get_receipt (fst (post_pay s ph amt la now gw now'))
                          (''ORDER-'' @ string_of_nat now))) ''receipt'') ''status'' =
        JStr ''pending'') \<and>
   (\<forall>b. fst (snd (post_pay_legacy rs ph amt la now ts gw now' ts')) = (200, b) \<longrightarrow>
      returned_reference (Some (200, b)) = [''ORDER-'' @ string_of_nat now] \<and>
      fst (get_receipt_legacy (fst (post_pay_legacy rs ph amt la now ts gw now' ts'))
             (''ORDER-'' @ string_of_nat now)) = 200 \<and>
      oprop (oprop (snd (get_receipt_legacy (fst (post_pay_legacy rs ph amt la now ts gw now' ts'))
                          (''ORDER-'' @ string_of_nat now))) ''receipt'') ''status'' =
        JStr ''pending'') \<and>
   (\<forall>m n. m \<noteq> n \<longrightarrow> ''ORDER-'' @ string_of_nat m \<noteq> ''ORDER-'' @ string_of_nat n)"
proof (intro conjI allI impI)
  show "distinct (pay_references s reqs)" using pay_references_fresh by blast
next
  fix b assume a: "fst (snd (post_pay s ph amt la now gw now')) = Some (200, b)"
  note t = post_pay_200 [OF a]
  from t show "returned_reference (Some (200, b)) = [''ORDER-'' @ string_of_nat now]" by blast
  from t show "fst (get_receipt (fst (post_pay s ph amt la now gw now')) (''ORDER-'' @ string_of_nat now)) = 200"
    by simp
  from t show "oprop (oprop (snd (get_receipt (fst (post_pay s ph amt la now gw now'))
                          (''ORDER-'' @ string_of_nat now))) ''receipt'') ''status'' = JStr ''pending''"
    by (simp add: oprop_JObj)
next
  fix b assume a: "fst (snd (post_pay_legacy rs ph amt la now ts gw now' ts')) = (200, b)"
  from post_pay_legacy_200 [OF a] obtain receiptData where
    e: "fst (post_pay_legacy rs ph amt la now ts gw now' ts') =
       AList.update (''ORDER-'' @ string_of_nat now) receiptData rs"
    and b: "b = JObj [(''success'', JBool True), (''message'', JStr ''STK push sent, check your phone''),
               (''reference'', JStr (''ORDER-'' @ string_of_nat now)),
               (''receipt'', JObj receiptData)]"
    and f: "field receiptData ''status'' = JStr ''pending''"
    by blast
  show "returned_reference (Some (200, b)) = [''ORDER-'' @ string_of_nat now]"
    unfolding b by (simp add: returned_reference_def oprop_JObj)
  show "fst (get_receipt_legacy (fst (post_pay_legacy rs ph amt la now ts gw now' ts'))
             (''ORDER-'' @ string_of_nat now)) = 200"
    unfolding e by (simp add: get_receipt_legacy_update)
  show "oprop (oprop (snd (get_receipt_legacy (fst (post_pay_legacy rs ph amt la now ts gw now' ts'))
                          (''ORDER-'' @ string_of_nat now))) ''receipt'') ''status'' = JStr ''pending''"
    unfolding e using f by (simp add: get_receipt_legacy_update oprop_JObj field_def)
next
  fix m n :: nat assume "m \<noteq> n"
  then show "''ORDER-'' @ string_of_nat m \<noteq> ''ORDER-'' @ string_of_nat n"
    using order_reference_inj by blast
qed

theorem pay_references_unique_witness:
  "fst (snd (post_pay empty_ledger (JStr ''0712345678'') (Some 200) (Some 20000) 5 ok_reply 6)) =
     Some (200, JObj [(''success'', JBool True),
        (''message'', JStr ''STK push sent, check your phone''),
        (''reference'', JStr ''ORDER-5'')]) \<and>
   oprop (oprop (snd (get_receipt
        (fst (post_pay empty_ledger (JStr ''0712345678'') (Some 200) (Some 20000) 5 ok_reply 6))
        ''ORDER-5'')) ''receipt'') ''status'' = JStr ''pending'' \<and>
   distinct (pay_references empty_ledger two_pays) \<and>
   ''ORDER-'' @ string_of_nat 5 \<noteq> ''ORDER-'' @ string_of_nat 6"
proof -
  have e: "post_pay empty_ledger (JStr ''0712345678'') (Some 200) (Some 20000) 5 ok_reply 6 =
     (\<lparr>users = [''254712345678'' \<mapsto> \<lparr>phone = ''254712345678'', balance = 0, has_paid_fee = False\<rparr>],
       transactions =
         [\<lparr>reference = ''ORDER-5'', user_phone = ''254712345678'', type = ''service_fee'',
           amount = Some 200, status = ''pending'',
           description = ''Service fee payment for loan of KES 20000'',
           metadata = JObj [(''transaction_id'', JStr ''TX1''), (''loan_amount'', JNum 20000)]\<rparr>]\<rparr>,
      Some (200, JObj [(''success'', JBool True),
        (''message'', JStr ''STK push sent, check your phone''),
        (''reference'', JStr ''ORDER-5'')]),
      Some \<lparr>poll_reference = ''ORDER-5'', formattedPhone = ''254712345678'',
            loan_amount = Some 20000, transaction_reference = JStr ''TX1''\<rparr>)"
    unfolding ok_reply_def
    by (subst post_pay_success [OF phone_example amounts_present(1) ok_reply_facts])
      (simp_all add: first_user createTransaction_first fits_examples js_or_def num_def small_numerals
        loan_numeral)
  note t = pay_references_unique [of empty_ledger two_pays "JStr ''0712345678''" "Some 200"
      "Some 20000" 5 ok_reply 6]
  from t have d: "distinct (pay_references empty_ledger two_pays)" by blast
  from t e have p: "oprop (oprop (snd (get_receipt
        (fst (post_pay empty_ledger (JStr ''0712345678'') (Some 200) (Some 20000) 5 ok_reply 6))
        (''ORDER-'' @ string_of_nat 5))) ''receipt'') ''status'' = JStr ''pending''"
    by (simp add: small_numerals)
  from t have "(5::nat) \<noteq> 6 \<longrightarrow> ''ORDER-'' @ string_of_nat 5 \<noteq> ''ORDER-'' @ string_of_nat 6"
    by blast
  then have i: "''ORDER-'' @ string_of_nat 5 \<noteq> ''ORDER-'' @ string_of_nat 6" by simp
  from e d p i show ?thesis by (simp add: small_numerals)
qed

section \<open>The webhook and the poll tick of the legacy variant\<close>

lemma refCandidates_first:
  "refCandidates data = ref # cs \<Longrightarrow> ref = first_candidate data \<and> truthy ref"
  by (auto simp: refCandidates_def first_candidate_def split: if_splits)

lemma refCandidates_empty:
  "refCandidates data = [] \<longleftrightarrow> \<not> truthy (first_candidate data)"
  by (auto simp: refCandidates_def first_candidate_def split: if_splits)

lemma refCandidates_object:
  "refCandidates data = ref # cs \<Longrightarrow> get_prop data ''external_reference'' \<noteq> None"
  by (cases data) (auto simp: refCandidates_def oprop_def)

lemma refCandidates_truthy:
  assumes "truthy (first_candidate data)"
  obtains cs x where "refCandidates data = first_candidate data # cs"
    "get_prop data ''external_reference'' = Some x"
proof -
  from assms obtain ref cs where c: "refCandidates data = ref # cs"
    by (cases "refCandidates data") (auto simp: refCandidates_empty)
  from refCandidates_first [OF c] have r: "ref = first_candidate data" by simp
  from refCandidates_object [OF c] obtain x where "get_prop data ''external_reference'' = Some x"
    by blast
  with c r that show ?thesis by blast
qed

lemma processWebhookData_none:
  assumes "\<not> truthy (first_candidate data)" "data \<noteq> JUndefined" "data \<noteq> JNull"
  shows "processWebhookData rs data ts = Returned rs"
proof -
  from assms(1) have e: "refCandidates data = []" by (simp add: refCandidates_empty)
  from assms(2,3) have "get_prop data ''external_reference'' \<noteq> None" by (cases data) simp_all
  with e show ?thesis by (auto simp: processWebhookData_def)
qed

lemma processWebhookData_null:
  "data = JUndefined \<or> data = JNull \<Longrightarrow> processWebhookData rs data ts = Threw"
  by (auto simp: processWebhookData_def)

lemma processWebhookData_threw:
  assumes "truthy (first_candidate data)"
    and "key_string (first_candidate data) = None \<or>
         lower_or_empty (oprop (js_or (oprop data ''data'') data) ''status'') = None"
  shows "processWebhookData rs data ts = Threw"
proof -
  from assms(1) obtain cs x where c: "refCandidates data = first_candidate data # cs"
    and x: "get_prop data ''external_reference'' = Some x"
    by (rule refCandidates_truthy)
  from assms(2) show ?thesis
    by (auto simp: processWebhookData_def c x Let_def split: option.splits)
qed

lemma processWebhookData_inherited:
  assumes "truthy (first_candidate data)"
    and "key_string (first_candidate data) = Some key"
    and "lower_or_empty (oprop (js_or (oprop data ''data'') data) ''status'') = Some st"
    and "map_of rs key = None"
  shows "key = ''__proto__'' \<Longrightarrow> processWebhookData rs data ts = Polluted"
    and "key \<in> set prototype_functions \<Longrightarrow> processWebhookData rs data ts = Returned rs"
proof -
  from assms(1) obtain cs x where c: "refCandidates data = first_candidate data # cs"
    and x: "get_prop data ''external_reference'' = Some x"
    by (rule refCandidates_truthy)
  show "key = ''__proto__'' \<Longrightarrow> processWebhookData rs data ts = Polluted"
    using assms(2,3,4) by (simp add: processWebhookData_def c x Let_def)
  have "''__proto__'' \<notin> set prototype_functions" by (simp add: prototype_functions_def)
  then show "key \<in> set prototype_functions \<Longrightarrow> processWebhookData rs data ts = Returned rs"
    using assms(2,3,4) by (auto simp: processWebhookData_def c x Let_def)
qed

lemma processWebhookData_stored:
  assumes "truthy (first_candidate data)"
    and "key_string (first_candidate data) = Some key"
    and "lower_or_empty (oprop (js_or (oprop data ''data'') data) ''status'') = Some st"
    and "map_of rs key \<noteq> None \<or> (key \<noteq> ''__proto__'' \<and> key \<notin> set prototype_functions)"
  shows "processWebhookData rs data ts =
     Returned (AList.update key
       (AList.update ''timestamp'' (JNum (int ts))
          (if st = ''completed'' \<or> oprop (js_or (oprop data ''data'') data) ''result_code'' = JNum 0
           then AList.update ''status_note''
                  (JStr (check_mark @ '' Payment verified. Loan processing started.''))
                  (AList.update ''status'' (JStr ''processing'')
                     (case map_of rs key of None \<Rightarrow> [] | Some r \<Rightarrow> r))
           else AList.update ''status_note''
                  (js_or (oprop (js_or (oprop data ''data'') data) ''failure_reason'')
                     (js_or (oprop (oprop (js_or (oprop data ''data'') data) ''result'') ''ResultDesc'')
                        (JStr ''Payment failed or cancelled.'')))
                  (AList.update ''status'' (JStr ''cancelled'')
                     (case map_of rs key of None \<Rightarrow> [] | Some r \<Rightarrow> r))))
       rs)"
proof -
  from assms(1) obtain cs x where c: "refCandidates data = first_candidate data # cs"
    and x: "get_prop data ''external_reference'' = Some x"
    by (rule refCandidates_truthy)
  from assms(4) show ?thesis
  proof
    assume "map_of rs key \<noteq> None"
    then obtain r where "map_of rs key = Some r" by blast
    with assms(2,3) show ?thesis by (simp add: processWebhookData_def c x Let_def)
  next
    assume "key \<noteq> ''__proto__'' \<and> key \<notin> set prototype_functions"
    with assms(2,3) show ?thesis by (simp add: processWebhookData_def c x Let_def)
  qed
qed

lemma field_Nil: "field [] k = JUndefined"
  by (simp add: field_def)

lemma poll_tick_legacy_status:
  assumes "map_of rs (poll_reference p) = Some r" "poll_status reply = Some (pd, st)"
  shows "\<exists>r'. map_of (fst (poll_tick_legacy rs p reply ts)) (poll_reference p) = Some r' \<and>
     field r' ''status'' =
       (if st = ''completed'' \<or> st = ''processing'' then JStr ''processing''
        else if st = ''failed'' \<or> st = ''cancelled'' then JStr ''cancelled''
        else field r ''status'')"
proof (cases "st = ''completed'' \<or> st = ''processing''")
  case True
  with assms show ?thesis
    by (simp add: poll_tick_legacy_def Let_def update_conv' field_update)
next
  case False
  show ?thesis
  proof (cases "st = ''failed'' \<or> st = ''cancelled''")
    case True
    with False assms show ?thesis
      by (simp add: poll_tick_legacy_def Let_def update_conv' field_update)
  next
    case f: False
    with False assms show ?thesis by (simp add: poll_tick_legacy_def)
  qed
qed

lemma webhook_examples:
  "first_candidate processing_webhook = JStr ''ORDER-1''"
  "first_candidate queued_webhook = JStr ''ORDER-1''"
  "first_candidate completed_webhook = JStr ''ORDER-1''"
  "lower_or_empty (oprop (js_or (oprop processing_webhook ''data'') processing_webhook) ''status'')
     = Some ''processing''"
  "lower_or_empty (oprop (js_or (oprop queued_webhook ''data'') queued_webhook) ''status'')
     = Some ''queued''"
  "lower_or_empty (oprop (js_or (oprop completed_webhook ''data'') completed_webhook) ''status'')
     = Some ''completed''"
  by (simp_all add: first_candidate_def processing_webhook_def queued_webhook_def
      completed_webhook_def oprop_def js_or_def toLowerCase_def lower_char_def)

lemma order1_key:
  "map_of pending_receipts ''ORDER-1'' =
     Some [(''reference'', JStr ''ORDER-1''), (''status'', JStr ''pending''),
           (''timestamp'', JNum 1000)]"
  "''ORDER-1'' \<noteq> ''__proto__''" "''ORDER-1'' \<notin> set prototype_functions"
  by (simp_all add: pending_receipts_def prototype_functions_def)

text \<open>
  C3, as stated, fails. On a pending receipt the legacy webhook maps the status
  \<open>processing\<close> to \<open>cancelled\<close>, where a poll tick maps it to \<open>processing\<close> (the
  settled state of that variant); and it maps a status outside the known set to
  \<open>cancelled\<close>, where a poll tick changes nothing and keeps its timer.
\<close>

theorem webhook_mapping_differs:
  "processWebhookData pending_receipts processing_webhook 9 =
     Returned [(''ORDER-1'',
        [(''reference'', JStr ''ORDER-1''), (''status'', JStr ''cancelled''),
         (''timestamp'', JNum 9), (''status_note'', JStr ''Payment failed or cancelled.'')])] \<and>
   map (\<lambda>(ref, r). (ref, field r ''status''))
     (fst (poll_tick_legacy pending_receipts poll1 processing_reply 9)) =
     [(''ORDER-1'', JStr ''processing'')] \<and>
   processWebhookData pending_receipts queued_webhook 9 =
     Returned [(''ORDER-1'',
        [(''reference'', JStr ''ORDER-1''), (''status'', JStr ''cancelled''),
         (''timestamp'', JNum 9), (''status_note'', JStr ''Payment failed or cancelled.'')])] \<and>
   poll_tick_legacy pending_receipts poll1 queued_reply 9 = (pending_receipts, True)"
proof -
  have l: "toLowerCase ''processing'' = ''processing''" "toLowerCase ''queued'' = ''queued''"
    by (simp_all add: toLowerCase_def lower_char_def)
  have a: "processWebhookData pending_receipts processing_webhook 9 =
     Returned [(''ORDER-1'',
        [(''reference'', JStr ''ORDER-1''), (''status'', JStr ''cancelled''),
         (''timestamp'', JNum 9), (''status_note'', JStr ''Payment failed or cancelled.'')])]"
    by (subst processWebhookData_stored [where key = "''ORDER-1''" and st = "''processing''"])
      (simp_all add: webhook_examples order1_key,
       simp add: processing_webhook_def pending_receipts_def oprop_def js_or_def)
  have b: "map (\<lambda>(ref, r). (ref, field r ''status''))
     (fst (poll_tick_legacy pending_receipts poll1 processing_reply 9)) =
     [(''ORDER-1'', JStr ''processing'')]"
    by (simp add: poll_tick_legacy_def poll_status_def processing_reply_def poll1_def
        pending_receipts_def oprop_def js_or_def l Let_def field_def)
  have c: "processWebhookData pending_receipts queued_webhook 9 =
     Returned [(''ORDER-1'',
        [(''reference'', JStr ''ORDER-1''), (''status'', JStr ''cancelled''),
         (''timestamp'', JNum 9), (''status_note'', JStr ''Payment failed or cancelled.'')])]"
    by (subst processWebhookData_stored [where key = "''ORDER-1''" and st = "''queued''"])
      (simp_all add: webhook_examples order1_key,
       simp add: queued_webhook_def pending_receipts_def oprop_def js_or_def)
  have d: "poll_tick_legacy pending_receipts poll1 queued_reply 9 = (pending_receipts, True)"
    by (simp add: poll_tick_legacy_def poll_status_def poll1_def queued_reply_def
        pending_receipts_def oprop_def js_or_def l Let_def)
  from a b c d show ?thesis by blast
qed

text \<open>
  C3, amended. The callback of the database variant leaves the ledger as it is. The
  legacy webhook throws on a body that is \<open>undefined\<close> or \<open>null\<close>, and does nothing when
  all four candidate fields are empty. Otherwise it takes the first non-empty candidate
  as the key of the receipt. When that key has no string (an object with a \<open>toString\<close>
  field of its own) or the status is non-empty and not a string, it throws, and the
  route answers 500. When the receipts hold nothing under the key and the key is
  \<open>__proto__\<close>, the fields go to the prototype of all objects and not to the receipts;
  when the key names a function of that prototype, the receipts stay as they are; in
  every other case it stores a receipt under the key (all three for a candidate whose
  conversion to a string is exact, a number only below 2 to the power 53 in magnitude):
  the status is \<open>processing\<close> when the lower-cased status is \<open>completed\<close> or
  \<open>result_code\<close> is 0, and \<open>cancelled\<close> otherwise; the timestamp is set, and every
  field other than status, note and timestamp is kept (starting from an empty receipt
  when there is none). A poll tick of that variant has a mapping of its own:
  \<open>processing\<close> for \<open>completed\<close> and \<open>processing\<close>, \<open>cancelled\<close> for \<open>failed\<close> and
  \<open>cancelled\<close>, and the status kept otherwise.
\<close>

theorem processWebhookData_mapping:
  "fst (post_callback s data) = s \<and>
   (data = JUndefined \<or> data = JNull \<longrightarrow> processWebhookData rs data ts = Threw) \<and>
   (\<not> truthy (first_candidate data) \<and> data \<noteq> JUndefined \<and> data \<noteq> JNull \<longrightarrow>
      processWebhookData rs data ts = Returned rs) \<and>
   (truthy (first_candidate data) \<and>
      (key_string (first_candidate data) = None \<or>
       lower_or_empty (oprop (js_or (oprop data ''data'') data) ''status'') = None) \<longrightarrow>
      processWebhookData rs data ts = Threw \<and>
      post_callback_legacy rs data ts = (Threw, (500, JStr ''Internal Server Error''))) \<and>
   (\<forall>key st. truthy (first_candidate data) \<and> printable (first_candidate data) \<and>
         key_string (first_candidate data) = Some key \<and>
         lower_or_empty (oprop (js_or (oprop data ''data'') data) ''status'') = Some st \<longrightarrow>
      (map_of rs key = None \<and> key = ''__proto__'' \<longrightarrow>
         processWebhookData rs data ts = Polluted) \<and>
      (map_of rs key = None \<and> key \<in> set prototype_functions \<longrightarrow>
         processWebhookData rs data ts = Returned rs) \<and>
      (map_of rs key \<noteq> None \<or> (key \<noteq> ''__proto__'' \<and> key \<notin> set prototype_functions) \<longrightarrow>
         (\<exists>r'. processWebhookData rs data ts = Returned (AList.update key r' rs) \<and>
            field r' ''status'' =
              JStr (if st = ''completed'' \<or>
                       oprop (js_or (oprop data ''data'') data) ''result_code'' = JNum 0
                    then ''processing'' else ''cancelled'') \<and>
            field r' ''timestamp'' = JNum (int ts) \<and>
            (\<forall>k. k \<noteq> ''status'' \<and> k \<noteq> ''status_note'' \<and> k \<noteq> ''timestamp'' \<longrightarrow>
               field r' k = (case map_of rs key of None \<Rightarrow> JUndefined | Some r \<Rightarrow> field r k))))) \<and>
   (\<forall>r pd st. map_of rs (poll_reference p) = Some r \<and> poll_status reply = Some (pd, st) \<longrightarrow>
      (\<exists>r'. map_of (fst (poll_tick_legacy rs p reply ts)) (poll_reference p) = Some r' \<and>
         field r' ''status'' =
           (if st = ''completed'' \<or> st = ''processing'' then JStr ''processing''
            else if st = ''failed'' \<or> st = ''cancelled'' then JStr ''cancelled''
            else field r ''status'')))"
proof -
  have c1: "fst (post_callback s data) = s" by (simp add: post_callback_def)
  have c2: "data = JUndefined \<or> data = JNull \<longrightarrow> processWebhookData rs data ts = Threw"
    using processWebhookData_null by blast
  have c3: "\<not> truthy (first_candidate data) \<and> data \<noteq> JUndefined \<and> data \<noteq> JNull \<longrightarrow>
      processWebhookData rs data ts = Returned rs"
    by (simp add: processWebhookData_none)
  have c4: "truthy (first_candidate data) \<and>
      (key_string (first_candidate data) = None \<or>
       lower_or_empty (oprop (js_or (oprop data ''data'') data) ''status'') = None) \<longrightarrow>
      processWebhookData rs data ts = Threw \<and>
      post_callback_legacy rs data ts = (Threw, (500, JStr ''Internal Server Error''))"
  proof
    assume a: "truthy (first_candidate data) \<and>
      (key_string (first_candidate data) = None \<or>
       lower_or_empty (oprop (js_or (oprop data ''data'') data) ''status'') = None)"
    then have t: "processWebhookData rs data ts = Threw"
      using processWebhookData_threw [of data rs ts] by blast
    then show "processWebhookData rs data ts = Threw \<and>
      post_callback_legacy rs data ts = (Threw, (500, JStr ''Internal Server Error''))"
      by (simp add: post_callback_legacy_def)
  qed
  have c5: "(map_of rs key = None \<and> key = ''__proto__'' \<longrightarrow>
         processWebhookData rs data ts = Polluted) \<and>
      (map_of rs key = None \<and> key \<in> set prototype_functions \<longrightarrow>
         processWebhookData rs data ts = Returned rs) \<and>
      (map_of rs key \<noteq> None \<or> (key \<noteq> ''__proto__'' \<and> key \<notin> set prototype_functions) \<longrightarrow>
         (\<exists>r'. processWebhookData rs data ts = Returned (AList.update key r' rs) \<and>
            field r' ''status'' =
              JStr (if st = ''completed'' \<or>
                       oprop (js_or (oprop data ''data'') data) ''result_code'' = JNum 0
                    then ''processing'' else ''cancelled'') \<and>
            field r' ''timestamp'' = JNum (int ts) \<and>
            (\<forall>k. k \<noteq> ''status'' \<and> k \<noteq> ''status_note'' \<and> k \<noteq> ''timestamp'' \<longrightarrow>
               field r' k = (case map_of rs key of None \<Rightarrow> JUndefined | Some r \<Rightarrow> field r k))))"
    if a: "truthy (first_candidate data) \<and> printable (first_candidate data) \<and>
         key_string (first_candidate data) = Some key \<and>
         lower_or_empty (oprop (js_or (oprop data ''data'') data) ''status'') = Some st"
    for key st
  proof (intro conjI impI)
    assume "map_of rs key = None \<and> key = ''__proto__''"
    with a show "processWebhookData rs data ts = Polluted"
      using processWebhookData_inherited(1) [of data key st rs ts] by blast
  next
    assume "map_of rs key = None \<and> key \<in> set prototype_functions"
    with a show "processWebhookData rs data ts = Returned rs"
      using processWebhookData_inherited(2) [of data key st rs ts] by blast
  next
    assume b: "map_of rs key \<noteq> None \<or> (key \<noteq> ''__proto__'' \<and> key \<notin> set prototype_functions)"
    let ?old = "case map_of rs key of None \<Rightarrow> [] | Some r \<Rightarrow> r"
    let ?pd = "js_or (oprop data ''data'') data"
    let ?r' = "AList.update ''timestamp'' (JNum (int ts))
          (if st = ''completed'' \<or> oprop ?pd ''result_code'' = JNum 0
           then AList.update ''status_note''
                  (JStr (check_mark @ '' Payment verified. Loan processing started.''))
                  (AList.update ''status'' (JStr ''processing'') ?old)
           else AList.update ''status_note''
                  (js_or (oprop ?pd ''failure_reason'')
                     (js_or (oprop (oprop ?pd ''result'') ''ResultDesc'')
                        (JStr ''Payment failed or cancelled.'')))
                  (AList.update ''status'' (JStr ''cancelled'') ?old))"
    have e: "processWebhookData rs data ts = Returned (AList.update key ?r' rs)"
      using processWebhookData_stored [of data key st rs ts] a b by blast
    have f1: "field ?r' ''status'' =
        JStr (if st = ''completed'' \<or> oprop ?pd ''result_code'' = JNum 0
              then ''processing'' else ''cancelled'')"
      by (simp add: field_update)
    have f2: "field ?r' ''timestamp'' = JNum (int ts)" by (simp add: field_update)
    have f3: "\<forall>k. k \<noteq> ''status'' \<and> k \<noteq> ''status_note'' \<and> k \<noteq> ''timestamp'' \<longrightarrow>
        field ?r' k = (case map_of rs key of None \<Rightarrow> JUndefined | Some r \<Rightarrow> field r k)"
      by (auto simp: field_update field_Nil split: option.splits)
    from e f1 f2 f3
    show "\<exists>r'. processWebhookData rs data ts = Returned (AList.update key r' rs) \<and>
            field r' ''status'' =
              JStr (if st = ''completed'' \<or>
                       oprop (js_or (oprop data ''data'') data) ''result_code'' = JNum 0
                    then ''processing'' else ''cancelled'') \<and>
            field r' ''timestamp'' = JNum (int ts) \<and>
            (\<forall>k. k \<noteq> ''status'' \<and> k \<noteq> ''status_note'' \<and> k \<noteq> ''timestamp'' \<longrightarrow>
               field r' k = (case map_of rs key of None \<Rightarrow> JUndefined | Some r \<Rightarrow> field r k))"
      by blast
  qed
  have c6: "\<forall>r pd st. map_of rs (poll_reference p) = Some r \<and> poll_status reply = Some (pd, st) \<longrightarrow>
      (\<exists>r'. map_of (fst (poll_tick_legacy rs p reply ts)) (poll_reference p) = Some r' \<and>
         field r' ''status'' =
           (if st = ''completed'' \<or> st = ''processing'' then JStr ''processing''
            else if st = ''failed'' \<or> st = ''cancelled'' then JStr ''cancelled''
            else field r ''status''))"
    using poll_tick_legacy_status by blast
  from c1 c2 c3 c4 c5 c6 show ?thesis by blast
qed

theorem processWebhookData_mapping_witness:
  "truthy (first_candidate completed_webhook) \<and>
   printable (first_candidate completed_webhook) \<and>
   key_string (first_candidate completed_webhook) = Some ''ORDER-1'' \<and>
   lower_or_empty (oprop (js_or (oprop completed_webhook ''data'') completed_webhook) ''status'') =
     Some ''completed'' \<and>
   map_of pending_receipts ''ORDER-1'' \<noteq> None \<and>
   (\<exists>r'. processWebhookData pending_receipts completed_webhook 9 =
            Returned (AList.update ''ORDER-1'' r' pending_receipts) \<and>
      field r' ''status'' = JStr ''processing'' \<and>
      field r' ''reference'' = JStr ''ORDER-1'') \<and>
   key_string (first_candidate tostring_webhook) = Some ''toString'' \<and>
   map_of pending_receipts ''toString'' = None \<and>
   ''toString'' \<in> set prototype_functions \<and>
   processWebhookData pending_receipts tostring_webhook 9 = Returned pending_receipts"
proof -
  have c: "first_candidate completed_webhook = JStr ''ORDER-1''" by (rule webhook_examples)
  have h: "truthy (first_candidate completed_webhook) \<and>
     printable (first_candidate completed_webhook) \<and>
     key_string (first_candidate completed_webhook) = Some ''ORDER-1'' \<and>
     lower_or_empty (oprop (js_or (oprop completed_webhook ''data'') completed_webhook) ''status'') =
       Some ''completed''"
    by (simp add: webhook_examples)
  have m: "map_of pending_receipts ''ORDER-1'' \<noteq> None" by (simp add: order1_key)
  note w = processWebhookData_mapping [of empty_ledger completed_webhook pending_receipts 9]
  from w have w5: "\<forall>key st. truthy (first_candidate completed_webhook) \<and>
         printable (first_candidate completed_webhook) \<and>
         key_string (first_candidate completed_webhook) = Some key \<and>
         lower_or_empty (oprop (js_or (oprop completed_webhook ''data'') completed_webhook) ''status'')
           = Some st \<longrightarrow>
      (map_of pending_receipts key \<noteq> None \<or>
         (key \<noteq> ''__proto__'' \<and> key \<notin> set prototype_functions) \<longrightarrow>
         (\<exists>r'. processWebhookData pending_receipts completed_webhook 9 =
                  Returned (AList.update key r' pending_receipts) \<and>
            field r' ''status'' =
              JStr (if st = ''completed'' \<or>
                       oprop (js_or (oprop completed_webhook ''data'') completed_webhook)
                         ''result_code'' = JNum 0
                    then ''processing'' else ''cancelled'') \<and>
            field r' ''timestamp'' = JNum (int 9) \<and>
            (\<forall>k. k \<noteq> ''status'' \<and> k \<noteq> ''status_note'' \<and> k \<noteq> ''timestamp'' \<longrightarrow>
               field r' k = (case map_of pending_receipts key of
                               None \<Rightarrow> JUndefined | Some r \<Rightarrow> field r k))))"
    by blast
  from w5 [rule_format, of "''ORDER-1''" "''completed''"] h m obtain r' where
    a: "processWebhookData pending_receipts completed_webhook 9 =
          Returned (AList.update ''ORDER-1'' r' pending_receipts)"
    and b: "field r' ''status'' =
           JStr (if ''completed'' = ''completed'' \<or>
                    oprop (js_or (oprop completed_webhook ''data'') completed_webhook)
                      ''result_code'' = JNum 0
                 then ''processing'' else ''cancelled'')"
    and k: "\<forall>k. k \<noteq> ''status'' \<and> k \<noteq> ''status_note'' \<and> k \<noteq> ''timestamp'' \<longrightarrow>
            field r' k = (case map_of pending_receipts ''ORDER-1'' of
                            None \<Rightarrow> JUndefined | Some r \<Rightarrow> field r k)"
    by blast
  from b have b': "field r' ''status'' = JStr ''processing''" by simp
  from k [rule_format, of "''reference''"] have k': "field r' ''reference'' = JStr ''ORDER-1''"
    by (simp add: order1_key field_def)
  from a b' k' have ex: "\<exists>r'. processWebhookData pending_receipts completed_webhook 9 =
            Returned (AList.update ''ORDER-1'' r' pending_receipts) \<and>
      field r' ''status'' = JStr ''processing'' \<and>
      field r' ''reference'' = JStr ''ORDER-1''"
    by blast
  have tc: "first_candidate tostring_webhook = JStr ''toString''"
    by (simp add: first_candidate_def tostring_webhook_def oprop_def)
  have th: "truthy (first_candidate tostring_webhook) \<and>
     printable (first_candidate tostring_webhook) \<and>
     key_string (first_candidate tostring_webhook) = Some ''toString'' \<and>
     lower_or_empty (oprop (js_or (oprop tostring_webhook ''data'') tostring_webhook) ''status'') =
       Some ''completed''"
    by (simp add: tc) (simp add: tostring_webhook_def oprop_def js_or_def lower_completed)
  have tm: "map_of pending_receipts ''toString'' = None" by (simp add: pending_receipts_def)
  have tp: "''toString'' \<in> set prototype_functions" by (simp add: prototype_functions_def)
  note v = processWebhookData_mapping [of empty_ledger tostring_webhook pending_receipts 9]
  from v have v5: "\<forall>key st. truthy (first_candidate tostring_webhook) \<and>
         printable (first_candidate tostring_webhook) \<and>
         key_string (first_candidate tostring_webhook) = Some key \<and>
         lower_or_empty (oprop (js_or (oprop tostring_webhook ''data'') tostring_webhook) ''status'')
           = Some st \<longrightarrow>
      (map_of pending_receipts key = None \<and> key \<in> set prototype_functions \<longrightarrow>
         processWebhookData pending_receipts tostring_webhook 9 = Returned pending_receipts)"
    by blast
  from v5 [rule_format, of "''toString''" "''completed''"] th tm tp
  have ts: "processWebhookData pending_receipts tostring_webhook 9 = Returned pending_receipts"
    by blast
  from h m ex th tm tp ts show ?thesis by blast
qed

end
